theory Spec2Isabelle
  imports Complex_Main
begin

section \<open>Double values\<close>

text \<open>
  The C++ type \<open>double\<close> is modelled by its four kinds of value: a finite number,
  the two infinities and NaN.  An operation on finite numbers takes the exact result on
  the reals and overflows as IEEE 754 binary64 does under rounding to nearest: a result
  of magnitude \<open>2\<^sup>1\<^sup>0\<^sup>2\<^sup>4 - 2\<^sup>9\<^sup>7\<^sup>0\<close> or more is an infinity.  The rounding of a result in
  range to 53 bits, underflow and the sign of zero are not modelled.  For that reason
  the values of the evaluators are stated below as the code's own operations in the
  code's order, without regrouping a sum or replacing \<open>x * (1 / s)\<close> by \<open>x / s\<close>.  The
  infinities and NaN follow the IEEE 754 rules.
\<close>

datatype double = Fin real | PInf | NInf | NaN

definition overflow_threshold :: real where
  "overflow_threshold = 2 ^ 1024 - 2 ^ 970"

text \<open>The infinity with the sign of a non-zero real.\<close>

definition inf_of_sign :: "real \<Rightarrow> double" where
  "inf_of_sign a = (if a = 0 then NaN else if 0 < a then PInf else NInf)"

text \<open>The double of an exact finite result: an infinity when the result overflows.\<close>

definition to_double :: "real \<Rightarrow> double" where
  "to_double x = (if overflow_threshold \<le> \<bar>x\<bar> then inf_of_sign x else Fin x)"

text \<open>A double as an operation returns it: a finite number is below the threshold.\<close>

fun in_range :: "double \<Rightarrow> bool" where
  "in_range (Fin a) = (\<bar>a\<bar> < overflow_threshold)"
| "in_range PInf = True"
| "in_range NInf = True"
| "in_range NaN = True"

fun dneg :: "double \<Rightarrow> double" where
  "dneg (Fin a) = Fin (- a)"
| "dneg PInf = NInf"
| "dneg NInf = PInf"
| "dneg NaN = NaN"

fun dadd :: "double \<Rightarrow> double \<Rightarrow> double" where
  "dadd NaN _ = NaN"
| "dadd _ NaN = NaN"
| "dadd (Fin a) (Fin b) = to_double (a + b)"
| "dadd (Fin _) PInf = PInf"
| "dadd (Fin _) NInf = NInf"
| "dadd PInf (Fin _) = PInf"
| "dadd NInf (Fin _) = NInf"
| "dadd PInf PInf = PInf"
| "dadd NInf NInf = NInf"
| "dadd PInf NInf = NaN"
| "dadd NInf PInf = NaN"

definition dsub :: "double \<Rightarrow> double \<Rightarrow> double" where
  "dsub a b = dadd a (dneg b)"

fun dmul :: "double \<Rightarrow> double \<Rightarrow> double" where
  "dmul NaN _ = NaN"
| "dmul _ NaN = NaN"
| "dmul (Fin a) (Fin b) = to_double (a * b)"
| "dmul (Fin a) PInf = inf_of_sign a"
| "dmul (Fin a) NInf = inf_of_sign (- a)"
| "dmul PInf (Fin b) = inf_of_sign b"
| "dmul NInf (Fin b) = inf_of_sign (- b)"
| "dmul PInf PInf = PInf"
| "dmul NInf NInf = PInf"
| "dmul PInf NInf = NInf"
| "dmul NInf PInf = NInf"

text \<open>
  Division: a finite non-zero number over zero is an infinity, zero over zero and
  infinity over infinity are NaN, a finite number over an infinity is zero.
\<close>

fun ddiv :: "double \<Rightarrow> double \<Rightarrow> double" where
  "ddiv NaN _ = NaN"
| "ddiv _ NaN = NaN"
| "ddiv (Fin a) (Fin b) = (if b = 0 then inf_of_sign a else to_double (a / b))"
| "ddiv (Fin _) PInf = Fin 0"
| "ddiv (Fin _) NInf = Fin 0"
| "ddiv PInf (Fin b) = (if 0 \<le> b then PInf else NInf)"
| "ddiv NInf (Fin b) = (if 0 \<le> b then NInf else PInf)"
| "ddiv PInf PInf = NaN"
| "ddiv NInf NInf = NaN"
| "ddiv PInf NInf = NaN"
| "ddiv NInf PInf = NaN"

fun dlog :: "double \<Rightarrow> double" where
  "dlog (Fin a) = (if 0 < a then Fin (ln a) else if a = 0 then NInf else NaN)"
| "dlog PInf = PInf"
| "dlog NInf = NaN"
| "dlog NaN = NaN"

fun dexp :: "double \<Rightarrow> double" where
  "dexp (Fin a) = to_double (exp a)"
| "dexp PInf = PInf"
| "dexp NInf = Fin 0"
| "dexp NaN = NaN"

text \<open>The comparisons \<open><\<close> and \<open>>\<close> of C++: false as soon as an operand is NaN.\<close>

fun dlt :: "double \<Rightarrow> double \<Rightarrow> bool" where
  "dlt NaN _ = False"
| "dlt _ NaN = False"
| "dlt (Fin a) (Fin b) = (a < b)"
| "dlt (Fin _) PInf = True"
| "dlt (Fin _) NInf = False"
| "dlt PInf _ = False"
| "dlt NInf NInf = False"
| "dlt NInf _ = True"

definition dgt :: "double \<Rightarrow> double \<Rightarrow> bool" where
  "dgt a b = dlt b a"

definition dle :: "double \<Rightarrow> double \<Rightarrow> bool" where
  "dle a b = (dlt a b \<or> (a = b \<and> a \<noteq> NaN))"

fun is_nan :: "double \<Rightarrow> bool" where
  "is_nan NaN = True"
| "is_nan _ = False"

fun is_finite :: "double \<Rightarrow> bool" where
  "is_finite (Fin _) = True"
| "is_finite _ = False"

text \<open>\<open>x > 0\<close> on a double: true of a positive number and of \<open>+\<infinity>\<close>, false of NaN.\<close>

definition is_positive :: "double \<Rightarrow> bool" where
  "is_positive x = dgt x (Fin 0)"

section \<open>Constants\<close>

text \<open>
  Modelled from the spec: the constant \<open>NEG_LOG_SQRT_TWO_PI\<close> of
  \<open>stan/prob/constants.hpp\<close>, which is not among the sources.  The spec gives the
  normalisation term as \<open>-0.5*log(2\<pi>)\<close>, which is \<open>-log(\<surd>(2\<pi>))\<close>.
\<close>

definition NEG_LOG_SQRT_TWO_PI :: double where
  "NEG_LOG_SQRT_TWO_PI = Fin (- ln (sqrt (2 * pi)))"

text \<open>
  Modelled from the spec: the constant \<open>SQRT_2\<close> of \<open>stan/math/constants.hpp\<close>, which is
  not among the sources.  The spec divides by \<open>sigma*sqrt(2)\<close>.
\<close>

definition SQRT_2 :: double where
  "SQRT_2 = Fin (sqrt 2)"

text \<open>
  Modelled from the spec: the constant \<open>INV_SQRT_2\<close> of \<open>stan/math/constants.hpp\<close>, which
  is not among the sources.  The spec gives the thresholds of the tail policy as
  \<open>-37.5/\<surd>2\<close>, \<open>-5/\<surd>2\<close> and \<open>8.25/\<surd>2\<close>.
\<close>

definition INV_SQRT_2 :: double where
  "INV_SQRT_2 = Fin (1 / sqrt 2)"

text \<open>The local constant \<open>NEGATIVE_HALF\<close> of \<open>normal_log\<close> (line 102).\<close>

definition NEGATIVE_HALF :: double where
  "NEGATIVE_HALF = Fin (- (1 / 2))"

section \<open>Arguments, broadcast views and derivative accumulators\<close>

text \<open>
  An argument of an evaluator (\<open>T_y\<close>, \<open>T_loc\<close>, \<open>T_scale\<close>) is a scalar or a sequence
  of doubles or of differentiable values.  \<open>is_var\<close> says that the type is
  differentiable (derivative-tracked); \<open>elems\<close> holds the values (\<open>value_of\<close> of each
  element), a scalar being the sequence of its one value.
\<close>

record operand =
  is_var :: bool
  elems :: "double list"

text \<open>
  Modelled from the spec: the trait \<open>is_constant_struct<T>::value\<close>, which is not among
  the sources: an input is constant when it is a plain number, not derivative-tracked.
\<close>

definition is_constant_struct :: "operand \<Rightarrow> bool" where
  "is_constant_struct x = (\<not> is_var x)"

text \<open>
  Modelled from the spec: \<open>stan::length\<close>, which is not among the sources: the length of
  an argument, 1 for a scalar.
\<close>

definition stan_length :: "operand \<Rightarrow> nat" where
  "stan_length x = length (elems x)"

text \<open>
  Modelled from the spec: \<open>max_size\<close>, which is not among the sources: the broadcast
  length, the maximum of the lengths of the arguments.
\<close>

definition max_size :: "operand \<Rightarrow> operand \<Rightarrow> operand \<Rightarrow> nat" where
  "max_size x1 x2 x3 = max (stan_length x1) (max (stan_length x2) (stan_length x3))"

text \<open>
  Modelled from the spec: the index into a broadcast view (\<open>VectorView\<close>,
  \<open>DoubleVectorView\<close>, whose code is not among the sources).  Element \<open>i\<close> of a view is
  the sole stored element when the length is 1, the \<open>i\<close>-th stored element otherwise.
\<close>

definition view_index :: "nat \<Rightarrow> nat \<Rightarrow> nat" where
  "view_index len i = (if len = 1 then 0 else i)"

text \<open>
  Modelled from the spec: \<open>operator[]\<close> of a broadcast view over stored doubles
  (\<open>DoubleVectorView\<close>, not among the sources).
\<close>

definition view :: "double list \<Rightarrow> nat \<Rightarrow> double" where
  "view xs i = xs ! view_index (length xs) i"

text \<open>
  Modelled from the spec: \<open>value_of(x_vec[i])\<close>, the value of element \<open>i\<close> of the
  broadcast view of an argument (\<open>VectorView\<close> and \<open>value_of\<close>, not among the sources).
\<close>

definition value_at :: "operand \<Rightarrow> nat \<Rightarrow> double" where
  "value_at x i = view (elems x) i"

text \<open>
  Modelled from the spec: the result of an evaluator and the state of its loop, the
  running value with the derivative accumulators \<open>d_x1\<close>, \<open>d_x2\<close>, \<open>d_x3\<close> of
  \<open>agrad::OperandsAndPartials\<close> (not among the sources).  The accumulator of a constant
  argument does not exist; it is the empty sequence here.
\<close>

record partials =
  val :: double
  d_x1 :: "double list"
  d_x2 :: "double list"
  d_x3 :: "double list"

text \<open>
  Modelled from the spec: the accumulator of an argument at call entry: as long as the
  argument and zero everywhere when the argument is not constant, none otherwise.
\<close>

definition new_partials :: "operand \<Rightarrow> double list" where
  "new_partials x = (if is_constant_struct x then [] else replicate (stan_length x) (Fin 0))"

text \<open>
  Modelled from the spec: the constructor of \<open>agrad::OperandsAndPartials\<close> (not among the
  sources), together with the initial value \<open>v\<close> of the running total.
\<close>

definition operands_and_partials :: "double \<Rightarrow> operand \<Rightarrow> operand \<Rightarrow> operand \<Rightarrow> partials" where
  "operands_and_partials v x1 x2 x3 =
     \<lparr>val = v, d_x1 = new_partials x1, d_x2 = new_partials x2, d_x3 = new_partials x3\<rparr>"

text \<open>
  Modelled from the spec: the result of an early \<open>return v\<close>, converted to the return
  type: the value with no derivatives.
\<close>

definition plain :: "double \<Rightarrow> partials" where
  "plain v = \<lparr>val = v, d_x1 = [], d_x2 = [], d_x3 = []\<rparr>"

text \<open>
  Modelled from the spec: \<open>d_x[n] += v\<close>, \<open>d_x[n] -= v\<close> and \<open>d_x[n] *= v\<close> on an
  accumulator, written through its broadcast view (\<open>agrad::OperandsAndPartials\<close>, not
  among the sources).
\<close>

definition add_at :: "double list \<Rightarrow> nat \<Rightarrow> double \<Rightarrow> double list" where
  "add_at d n v = (let i = view_index (length d) n in d[i := dadd (d ! i) v])"

definition sub_at :: "double list \<Rightarrow> nat \<Rightarrow> double \<Rightarrow> double list" where
  "sub_at d n v = (let i = view_index (length d) n in d[i := dsub (d ! i) v])"

definition mul_at :: "double list \<Rightarrow> nat \<Rightarrow> double \<Rightarrow> double list" where
  "mul_at d n v = (let i = view_index (length d) n in d[i := dmul (d ! i) v])"

section \<open>Validation\<close>

text \<open>
  Modelled from the spec: the errors of the checks of \<open>stan/math/error_handling.hpp\<close>,
  which is not among the sources.  A \<open>DomainError\<close> carries the function name and the
  role label of the offending input (the invalid value it also carries is left out); a
  \<open>ShapeMismatch\<close> carries the function name.  The result pointer that the checks take
  (\<open>&logp\<close>) serves error policies that do not throw and is left out.
\<close>

datatype error = DomainError string string | ShapeMismatch string

text \<open>
  Modelled from the spec: \<open>check_not_nan\<close> (not among the sources): a \<open>DomainError\<close> when
  some element is NaN.
\<close>

definition check_not_nan :: "string \<Rightarrow> operand \<Rightarrow> string \<Rightarrow> error + unit" where
  "check_not_nan function x name =
     (if list_ex is_nan (elems x) then Inl (DomainError function name) else Inr ())"

text \<open>
  Modelled from the spec: \<open>check_finite\<close> (not among the sources): a \<open>DomainError\<close> unless
  every element is finite.
\<close>

definition check_finite :: "string \<Rightarrow> operand \<Rightarrow> string \<Rightarrow> error + unit" where
  "check_finite function x name =
     (if list_all is_finite (elems x) then Inr () else Inl (DomainError function name))"

text \<open>
  Modelled from the spec: \<open>check_positive\<close> (not among the sources): a \<open>DomainError\<close>
  unless every element is strictly positive.
\<close>

definition check_positive :: "string \<Rightarrow> operand \<Rightarrow> string \<Rightarrow> error + unit" where
  "check_positive function x name =
     (if list_all is_positive (elems x) then Inr () else Inl (DomainError function name))"

text \<open>
  Modelled from the spec: the broadcast rule of \<open>check_consistent_sizes\<close> (not among the
  sources): each length is 1 or the maximum length \<open>N\<close>, else a \<open>ShapeMismatch\<close>.
\<close>

definition consistent_size :: "nat \<Rightarrow> operand \<Rightarrow> bool" where
  "consistent_size N x = (stan_length x = 1 \<or> stan_length x = N)"

definition check_consistent_sizes ::
  "string \<Rightarrow> operand \<Rightarrow> operand \<Rightarrow> operand \<Rightarrow> error + unit" where
  "check_consistent_sizes function x1 x2 x3 =
     (let N = max_size x1 x2 x3 in
      if consistent_size N x1 \<and> consistent_size N x2 \<and> consistent_size N x3
      then Inr () else Inl (ShapeMismatch function))"

text \<open>
  Modelled from the spec: \<open>include_summand<propto, T...>::value\<close> of
  \<open>stan/prob/traits.hpp\<close>, not among the sources: a term is included unless the mode is
  proportional and none of the listed arguments is derivative-tracked.
\<close>

definition include_summand :: "bool \<Rightarrow> operand list \<Rightarrow> bool" where
  "include_summand propto xs = (\<not> propto \<or> list_ex is_var xs)"

section \<open>normal_log\<close>

text \<open>The body of the main loop of \<open>normal_log\<close> (lines 91 to 121) at index \<open>n\<close>.\<close>

definition normal_log_step ::
  "bool \<Rightarrow> operand \<Rightarrow> operand \<Rightarrow> operand \<Rightarrow> double list \<Rightarrow> double list \<Rightarrow> nat \<Rightarrow>
   partials \<Rightarrow> partials" where
  "normal_log_step propto y mu sigma inv_sigma log_sigma n st =
     (let y_dbl = value_at y n;
          mu_dbl = value_at mu n;
          y_minus_mu_over_sigma = dmul (dsub y_dbl mu_dbl) (view inv_sigma n);
          y_minus_mu_over_sigma_squared = dmul y_minus_mu_over_sigma y_minus_mu_over_sigma;
          logp1 = (if include_summand propto [] then dadd (val st) NEG_LOG_SQRT_TWO_PI
                   else val st);
          logp2 = (if include_summand propto [sigma] then dsub logp1 (view log_sigma n)
                   else logp1);
          logp3 = (if include_summand propto [y, mu, sigma]
                   then dadd logp2 (dmul NEGATIVE_HALF y_minus_mu_over_sigma_squared)
                   else logp2);
          scaled_diff = dmul (view inv_sigma n) y_minus_mu_over_sigma
      in \<lparr>val = logp3,
          d_x1 = (if \<not> is_constant_struct y then sub_at (d_x1 st) n scaled_diff
                  else d_x1 st),
          d_x2 = (if \<not> is_constant_struct mu then add_at (d_x2 st) n scaled_diff
                  else d_x2 st),
          d_x3 = (if \<not> is_constant_struct sigma
                  then add_at (d_x3 st) n
                         (dadd (dneg (view inv_sigma n))
                            (dmul (view inv_sigma n) y_minus_mu_over_sigma_squared))
                  else d_x3 st)\<rparr>)"

definition normal_log_name :: string where
  "normal_log_name = ''stan::prob::normal_log(%1%)''"

definition normal_log :: "bool \<Rightarrow> operand \<Rightarrow> operand \<Rightarrow> operand \<Rightarrow> error + partials" where
  "normal_log propto y mu sigma =
     (if \<not> (stan_length y \<noteq> 0 \<and> stan_length mu \<noteq> 0 \<and> stan_length sigma \<noteq> 0)
      then Inr (plain (Fin 0))
      else
        case check_not_nan normal_log_name y ''Random variable'' of Inl e \<Rightarrow> Inl e | Inr _ \<Rightarrow>
        (case check_finite normal_log_name mu ''Location parameter'' of Inl e \<Rightarrow> Inl e | Inr _ \<Rightarrow>
        (case check_positive normal_log_name sigma ''Scale parameter'' of Inl e \<Rightarrow> Inl e | Inr _ \<Rightarrow>
        (case check_consistent_sizes normal_log_name y mu sigma of Inl e \<Rightarrow> Inl e | Inr _ \<Rightarrow>
           if \<not> include_summand propto [y, mu, sigma] then Inr (plain (Fin 0))
           else
             let N = max_size y mu sigma;
                 inv_sigma = map (\<lambda>s. ddiv (Fin 1) s) (elems sigma);
                 log_sigma = (if include_summand propto [sigma] then map dlog (elems sigma)
                              else [])
             in Inr (fold (normal_log_step propto y mu sigma inv_sigma log_sigma) [0..<N]
                       (operands_and_partials (Fin 0) y mu sigma))))))"

section \<open>normal_cdf, normal_cdf_log, normal_ccdf_log\<close>

text \<open>
  The error function and its complement come from the C library; the evaluators take
  them as the parameters \<open>erf\<close> and \<open>erfc\<close>.
\<close>

definition SQRT_TWO_OVER_PI :: double where
  "SQRT_TWO_OVER_PI = Fin (sqrt (2 / pi))"

definition log_half :: double where
  "log_half = dlog (Fin (1 / 2))"

definition scaled_diff_of :: "double \<Rightarrow> double \<Rightarrow> double \<Rightarrow> double" where
  "scaled_diff_of y_dbl mu_dbl sigma_dbl = ddiv (dsub y_dbl mu_dbl) (dmul sigma_dbl SQRT_2)"

text \<open>The per-element factor \<open>cdf_\<close> of \<open>normal_cdf\<close> (lines 315 to 323).\<close>

definition cdf_term :: "(double \<Rightarrow> double) \<Rightarrow> (double \<Rightarrow> double) \<Rightarrow> double \<Rightarrow> double" where
  "cdf_term erf erfc scaled_diff =
     (if dlt scaled_diff (dmul (Fin (- 37.5)) INV_SQRT_2) then Fin 0
      else if dlt scaled_diff (dmul (Fin (- 5)) INV_SQRT_2)
        then dmul (Fin 0.5) (erfc (dneg scaled_diff))
      else if dgt scaled_diff (dmul (Fin 8.25) INV_SQRT_2) then Fin 1
      else dmul (Fin 0.5) (dadd (Fin 1) (erf scaled_diff)))"

text \<open>The quantity \<open>one_p_erf\<close> of \<open>normal_cdf_log\<close> (lines 397 to 405).\<close>

definition one_p_erf :: "(double \<Rightarrow> double) \<Rightarrow> (double \<Rightarrow> double) \<Rightarrow> double \<Rightarrow> double" where
  "one_p_erf erf erfc scaled_diff =
     (if dlt scaled_diff (dmul (Fin (- 37.5)) INV_SQRT_2) then Fin 0
      else if dlt scaled_diff (dmul (Fin (- 5)) INV_SQRT_2) then erfc (dneg scaled_diff)
      else if dgt scaled_diff (dmul (Fin 8.25) INV_SQRT_2) then Fin 2
      else dadd (Fin 1) (erf scaled_diff))"

text \<open>The quantity \<open>one_m_erf\<close> of \<open>normal_ccdf_log\<close> (lines 469 to 477).\<close>

definition one_m_erf :: "(double \<Rightarrow> double) \<Rightarrow> (double \<Rightarrow> double) \<Rightarrow> double \<Rightarrow> double" where
  "one_m_erf erf erfc scaled_diff =
     (if dlt scaled_diff (dmul (Fin (- 37.5)) INV_SQRT_2) then Fin 2
      else if dlt scaled_diff (dmul (Fin (- 5)) INV_SQRT_2)
        then dsub (Fin 2) (erfc (dneg scaled_diff))
      else if dgt scaled_diff (dmul (Fin 8.25) INV_SQRT_2) then Fin 0
      else dsub (Fin 1) (erf scaled_diff))"

text \<open>The body of the main loop of \<open>normal_cdf\<close> (lines 310 to 337) at index \<open>n\<close>.\<close>

definition normal_cdf_step ::
  "(double \<Rightarrow> double) \<Rightarrow> (double \<Rightarrow> double) \<Rightarrow> operand \<Rightarrow> operand \<Rightarrow> operand \<Rightarrow> nat \<Rightarrow>
   partials \<Rightarrow> partials" where
  "normal_cdf_step erf erfc y mu sigma n st =
     (let y_dbl = value_at y n;
          mu_dbl = value_at mu n;
          sigma_dbl = value_at sigma n;
          scaled_diff = scaled_diff_of y_dbl mu_dbl sigma_dbl;
          cdf_n = cdf_term erf erfc scaled_diff;
          rep_deriv =
            ddiv (ddiv (dmul (dmul SQRT_TWO_OVER_PI (Fin 0.5))
                          (dexp (dmul (dneg scaled_diff) scaled_diff))) cdf_n) sigma_dbl
      in \<lparr>val = dmul (val st) cdf_n,
          d_x1 = (if \<not> is_constant_struct y then add_at (d_x1 st) n rep_deriv else d_x1 st),
          d_x2 = (if \<not> is_constant_struct mu then sub_at (d_x2 st) n rep_deriv else d_x2 st),
          d_x3 = (if \<not> is_constant_struct sigma
                  then sub_at (d_x3 st) n (dmul (dmul rep_deriv scaled_diff) SQRT_2)
                  else d_x3 st)\<rparr>)"

text \<open>The loops after the main loop of \<open>normal_cdf\<close> (lines 339 to 347).\<close>

definition rescale :: "operand \<Rightarrow> double \<Rightarrow> double list \<Rightarrow> double list" where
  "rescale x cdf d =
     (if \<not> is_constant_struct x then fold (\<lambda>n d'. mul_at d' n cdf) [0..<stan_length x] d
      else d)"

definition normal_cdf_post :: "operand \<Rightarrow> operand \<Rightarrow> operand \<Rightarrow> partials \<Rightarrow> partials" where
  "normal_cdf_post y mu sigma st =
     \<lparr>val = val st,
      d_x1 = rescale y (val st) (d_x1 st),
      d_x2 = rescale mu (val st) (d_x2 st),
      d_x3 = rescale sigma (val st) (d_x3 st)\<rparr>"

text \<open>The main loop of \<open>normal_cdf\<close> (lines 301 to 337), from \<open>cdf = 1\<close>.\<close>

definition normal_cdf_loop ::
  "(double \<Rightarrow> double) \<Rightarrow> (double \<Rightarrow> double) \<Rightarrow> operand \<Rightarrow> operand \<Rightarrow> operand \<Rightarrow> partials" where
  "normal_cdf_loop erf erfc y mu sigma =
     (let N = max_size y mu sigma
      in fold (normal_cdf_step erf erfc y mu sigma) [0..<N]
           (operands_and_partials (Fin 1) y mu sigma))"

definition normal_cdf_name :: string where
  "normal_cdf_name = ''stan::prob::normal_cdf(%1%)''"

definition normal_cdf ::
  "(double \<Rightarrow> double) \<Rightarrow> (double \<Rightarrow> double) \<Rightarrow> operand \<Rightarrow> operand \<Rightarrow> operand \<Rightarrow>
   error + partials" where
  "normal_cdf erf erfc y mu sigma =
     (if \<not> (stan_length y \<noteq> 0 \<and> stan_length mu \<noteq> 0 \<and> stan_length sigma \<noteq> 0)
      then Inr (plain (Fin 1))
      else
        case check_not_nan normal_cdf_name y ''Random variable'' of Inl e \<Rightarrow> Inl e | Inr _ \<Rightarrow>
        (case check_finite normal_cdf_name mu ''Location parameter'' of Inl e \<Rightarrow> Inl e | Inr _ \<Rightarrow>
        (case check_not_nan normal_cdf_name sigma ''Scale parameter'' of Inl e \<Rightarrow> Inl e | Inr _ \<Rightarrow>
        (case check_positive normal_cdf_name sigma ''Scale parameter'' of Inl e \<Rightarrow> Inl e | Inr _ \<Rightarrow>
        (case check_consistent_sizes normal_cdf_name y mu sigma of Inl e \<Rightarrow> Inl e | Inr _ \<Rightarrow>
           Inr (normal_cdf_post y mu sigma (normal_cdf_loop erf erfc y mu sigma)))))))"

text \<open>The body of the loop of \<open>normal_cdf_log\<close> (lines 390 to 420) at index \<open>n\<close>.\<close>

definition normal_cdf_log_step ::
  "(double \<Rightarrow> double) \<Rightarrow> (double \<Rightarrow> double) \<Rightarrow> operand \<Rightarrow> operand \<Rightarrow> operand \<Rightarrow> nat \<Rightarrow>
   partials \<Rightarrow> partials" where
  "normal_cdf_log_step erf erfc y mu sigma n st =
     (let y_dbl = value_at y n;
          mu_dbl = value_at mu n;
          sigma_dbl = value_at sigma n;
          scaled_diff = scaled_diff_of y_dbl mu_dbl sigma_dbl;
          ope = one_p_erf erf erfc scaled_diff;
          rep_deriv =
            ddiv (dmul SQRT_TWO_OVER_PI (dexp (dmul (dneg scaled_diff) scaled_diff))) ope
      in \<lparr>val = dadd (val st) (dadd log_half (dlog ope)),
          d_x1 = (if \<not> is_constant_struct y
                  then add_at (d_x1 st) n (ddiv rep_deriv sigma_dbl) else d_x1 st),
          d_x2 = (if \<not> is_constant_struct mu
                  then sub_at (d_x2 st) n (ddiv rep_deriv sigma_dbl) else d_x2 st),
          d_x3 = (if \<not> is_constant_struct sigma
                  then sub_at (d_x3 st) n
                         (ddiv (dmul (dmul rep_deriv scaled_diff) SQRT_2) sigma_dbl)
                  else d_x3 st)\<rparr>)"

definition normal_cdf_log_name :: string where
  "normal_cdf_log_name = ''stan::prob::normal_cdf_log(%1%)''"

definition normal_cdf_log ::
  "(double \<Rightarrow> double) \<Rightarrow> (double \<Rightarrow> double) \<Rightarrow> operand \<Rightarrow> operand \<Rightarrow> operand \<Rightarrow>
   error + partials" where
  "normal_cdf_log erf erfc y mu sigma =
     (if \<not> (stan_length y \<noteq> 0 \<and> stan_length mu \<noteq> 0 \<and> stan_length sigma \<noteq> 0)
      then Inr (plain (Fin 0))
      else
        case check_not_nan normal_cdf_log_name y ''Random variable'' of Inl e \<Rightarrow> Inl e | Inr _ \<Rightarrow>
        (case check_finite normal_cdf_log_name mu ''Location parameter'' of Inl e \<Rightarrow> Inl e | Inr _ \<Rightarrow>
        (case check_not_nan normal_cdf_log_name sigma ''Scale parameter'' of Inl e \<Rightarrow> Inl e | Inr _ \<Rightarrow>
        (case check_positive normal_cdf_log_name sigma ''Scale parameter'' of Inl e \<Rightarrow> Inl e | Inr _ \<Rightarrow>
        (case check_consistent_sizes normal_cdf_log_name y mu sigma of Inl e \<Rightarrow> Inl e | Inr _ \<Rightarrow>
           let N = max_size y mu sigma
           in Inr (fold (normal_cdf_log_step erf erfc y mu sigma) [0..<N]
                     (operands_and_partials (Fin 0) y mu sigma)))))))"

text \<open>The body of the loop of \<open>normal_ccdf_log\<close> (lines 462 to 492) at index \<open>n\<close>.\<close>

definition normal_ccdf_log_step ::
  "(double \<Rightarrow> double) \<Rightarrow> (double \<Rightarrow> double) \<Rightarrow> operand \<Rightarrow> operand \<Rightarrow> operand \<Rightarrow> nat \<Rightarrow>
   partials \<Rightarrow> partials" where
  "normal_ccdf_log_step erf erfc y mu sigma n st =
     (let y_dbl = value_at y n;
          mu_dbl = value_at mu n;
          sigma_dbl = value_at sigma n;
          scaled_diff = scaled_diff_of y_dbl mu_dbl sigma_dbl;
          ome = one_m_erf erf erfc scaled_diff;
          rep_deriv =
            ddiv (dmul SQRT_TWO_OVER_PI (dexp (dmul (dneg scaled_diff) scaled_diff))) ome
      in \<lparr>val = dadd (val st) (dadd log_half (dlog ome)),
          d_x1 = (if \<not> is_constant_struct y
                  then sub_at (d_x1 st) n (ddiv rep_deriv sigma_dbl) else d_x1 st),
          d_x2 = (if \<not> is_constant_struct mu
                  then add_at (d_x2 st) n (ddiv rep_deriv sigma_dbl) else d_x2 st),
          d_x3 = (if \<not> is_constant_struct sigma
                  then add_at (d_x3 st) n
                         (ddiv (dmul (dmul rep_deriv scaled_diff) SQRT_2) sigma_dbl)
                  else d_x3 st)\<rparr>)"

definition normal_ccdf_log_name :: string where
  "normal_ccdf_log_name = ''stan::prob::normal_ccdf_log(%1%)''"

definition normal_ccdf_log ::
  "(double \<Rightarrow> double) \<Rightarrow> (double \<Rightarrow> double) \<Rightarrow> operand \<Rightarrow> operand \<Rightarrow> operand \<Rightarrow>
   error + partials" where
  "normal_ccdf_log erf erfc y mu sigma =
     (if \<not> (stan_length y \<noteq> 0 \<and> stan_length mu \<noteq> 0 \<and> stan_length sigma \<noteq> 0)
      then Inr (plain (Fin 0))
      else
        case check_not_nan normal_ccdf_log_name y ''Random variable'' of Inl e \<Rightarrow> Inl e | Inr _ \<Rightarrow>
        (case check_finite normal_ccdf_log_name mu ''Location parameter'' of Inl e \<Rightarrow> Inl e | Inr _ \<Rightarrow>
        (case check_not_nan normal_ccdf_log_name sigma ''Scale parameter'' of Inl e \<Rightarrow> Inl e | Inr _ \<Rightarrow>
        (case check_positive normal_ccdf_log_name sigma ''Scale parameter'' of Inl e \<Rightarrow> Inl e | Inr _ \<Rightarrow>
        (case check_consistent_sizes normal_ccdf_log_name y mu sigma of Inl e \<Rightarrow> Inl e | Inr _ \<Rightarrow>
           let N = max_size y mu sigma
           in Inr (fold (normal_ccdf_log_step erf erfc y mu sigma) [0..<N]
                     (operands_and_partials (Fin 0) y mu sigma)))))))"

section \<open>normal_rng\<close>

text \<open>A \<open>double\<close> as an argument of a check: a constant of length 1.\<close>

definition scalar :: "double \<Rightarrow> operand" where
  "scalar v = \<lparr>is_var = False, elems = [v]\<rparr>"

definition normal_rng_name :: string where
  "normal_rng_name = ''stan::prob::normal_rng(%1%)''"

text \<open>
  Modelled from the spec: the random source (boost's \<open>variate_generator\<close> over a
  \<open>normal_distribution\<close>, not among the sources).  The source is a state \<open>rng\<close> with one
  operation, \<open>draw\<close>, which returns a standard normal deviate and the advanced state; the
  generator for mean \<open>mu\<close> and scale \<open>sigma\<close> returns \<open>mu + sigma * draw\<close>.  The sampler
  returns its result together with the state of the source, so that a call that draws
  nothing returns the state it was given.  The checks and their order are those of the
  code (lines 509 to 512).
\<close>

definition normal_rng ::
  "('rng \<Rightarrow> double \<times> 'rng) \<Rightarrow> double \<Rightarrow> double \<Rightarrow> 'rng \<Rightarrow> (error + double) \<times> 'rng" where
  "normal_rng draw mu sigma rng =
     (case check_finite normal_rng_name (scalar mu) ''Location parameter'' of
        Inl e \<Rightarrow> (Inl e, rng) | Inr _ \<Rightarrow>
     (case check_not_nan normal_rng_name (scalar mu) ''Location parameter'' of
        Inl e \<Rightarrow> (Inl e, rng) | Inr _ \<Rightarrow>
     (case check_positive normal_rng_name (scalar sigma) ''Scale parameter'' of
        Inl e \<Rightarrow> (Inl e, rng) | Inr _ \<Rightarrow>
     (case check_not_nan normal_rng_name (scalar sigma) ''Scale parameter'' of
        Inl e \<Rightarrow> (Inl e, rng) | Inr _ \<Rightarrow>
        (let (z, rng') = draw rng in (Inr (dadd mu (dmul sigma z)), rng'))))))"

section \<open>Reference quantities\<close>

text \<open>
  The preconditions of the evaluators: no argument is empty, \<open>y\<close> holds no NaN, \<open>mu\<close> is
  finite, \<open>sigma\<close> is strictly positive, and each length is 1 or the broadcast length.
\<close>

definition valid_args :: "operand \<Rightarrow> operand \<Rightarrow> operand \<Rightarrow> bool" where
  "valid_args y mu sigma =
     (stan_length y \<noteq> 0 \<and> stan_length mu \<noteq> 0 \<and> stan_length sigma \<noteq> 0 \<and>
      \<not> list_ex is_nan (elems y) \<and> list_all is_finite (elems mu) \<and>
      list_all is_positive (elems sigma) \<and>
      consistent_size (max_size y mu sigma) y \<and> consistent_size (max_size y mu sigma) mu \<and>
      consistent_size (max_size y mu sigma) sigma)"

text \<open>The sum and the product of \<open>f 0\<close>, ..., \<open>f (N - 1)\<close>, in this order.\<close>

definition dsum :: "(nat \<Rightarrow> double) \<Rightarrow> nat \<Rightarrow> double" where
  "dsum f N = fold (\<lambda>n v. dadd v (f n)) [0..<N] (Fin 0)"

definition dprod :: "(nat \<Rightarrow> double) \<Rightarrow> nat \<Rightarrow> double" where
  "dprod f N = fold (\<lambda>n v. dmul v (f n)) [0..<N] (Fin 1)"

text \<open>
  The quantities of element \<open>n\<close> as \<open>normal_log\<close> computes them: the reciprocal
  \<open>1 / sigma[n]\<close>, the residual \<open>z = (y[n] - mu[n]) * (1 / sigma[n])\<close> and the term
  \<open>-0.5 * z\<^sup>2\<close>.
\<close>

definition recip :: "operand \<Rightarrow> nat \<Rightarrow> double" where
  "recip sigma n = ddiv (Fin 1) (value_at sigma n)"

definition z_recip :: "operand \<Rightarrow> operand \<Rightarrow> operand \<Rightarrow> nat \<Rightarrow> double" where
  "z_recip y mu sigma n = dmul (dsub (value_at y n) (value_at mu n)) (recip sigma n)"

definition quad_term :: "operand \<Rightarrow> operand \<Rightarrow> operand \<Rightarrow> nat \<Rightarrow> double" where
  "quad_term y mu sigma n =
     dmul (Fin (- (1 / 2))) (dmul (z_recip y mu sigma n) (z_recip y mu sigma n))"




text \<open>
  The derivative terms of element \<open>n\<close> as \<open>normal_log\<close> computes them, with the
  reciprocal \<open>inv = 1 / sigma[n]\<close>: \<open>-(inv * z)\<close>, \<open>inv * z\<close> and \<open>-inv + inv * z\<^sup>2\<close>.
\<close>

definition dy_term :: "operand \<Rightarrow> operand \<Rightarrow> operand \<Rightarrow> nat \<Rightarrow> double" where
  "dy_term y mu sigma n = dneg (dmul (recip sigma n) (z_recip y mu sigma n))"

definition dmu_term :: "operand \<Rightarrow> operand \<Rightarrow> operand \<Rightarrow> nat \<Rightarrow> double" where
  "dmu_term y mu sigma n = dmul (recip sigma n) (z_recip y mu sigma n)"

definition dsigma_term :: "operand \<Rightarrow> operand \<Rightarrow> operand \<Rightarrow> nat \<Rightarrow> double" where
  "dsigma_term y mu sigma n =
     dadd (dneg (recip sigma n))
       (dmul (recip sigma n) (dmul (z_recip y mu sigma n) (z_recip y mu sigma n)))"

text \<open>
  The same derivatives written with a division by \<open>sigma[n]\<close>: \<open>-z/sigma[n]\<close>,
  \<open>z/sigma[n]\<close> and \<open>-1/sigma[n] + z\<^sup>2/sigma[n]\<close> with \<open>z = (y[n] - mu[n]) / sigma[n]\<close>.
\<close>

definition z_score :: "operand \<Rightarrow> operand \<Rightarrow> operand \<Rightarrow> nat \<Rightarrow> double" where
  "z_score y mu sigma n = ddiv (dsub (value_at y n) (value_at mu n)) (value_at sigma n)"

definition d_dy :: "operand \<Rightarrow> operand \<Rightarrow> operand \<Rightarrow> nat \<Rightarrow> double" where
  "d_dy y mu sigma n = dneg (ddiv (z_score y mu sigma n) (value_at sigma n))"

definition d_dmu :: "operand \<Rightarrow> operand \<Rightarrow> operand \<Rightarrow> nat \<Rightarrow> double" where
  "d_dmu y mu sigma n = ddiv (z_score y mu sigma n) (value_at sigma n)"

definition d_dsigma :: "operand \<Rightarrow> operand \<Rightarrow> operand \<Rightarrow> nat \<Rightarrow> double" where
  "d_dsigma y mu sigma n =
     dadd (dneg (ddiv (Fin 1) (value_at sigma n)))
       (ddiv (dmul (z_score y mu sigma n) (z_score y mu sigma n)) (value_at sigma n))"

text \<open>
  Adding \<open>f n\<close> into the accumulator of \<open>x\<close> at every broadcast index \<open>n < N\<close>, and what it
  comes to: nothing for a constant argument, the sum of all \<open>f n\<close> in the one slot of an
  argument of length 1, and \<open>f n\<close> in slot \<open>n\<close> otherwise.
\<close>

definition accumulate :: "operand \<Rightarrow> (nat \<Rightarrow> double) \<Rightarrow> nat \<Rightarrow> double list" where
  "accumulate x f N = fold (\<lambda>n d. add_at d n (f n)) [0..<N] (new_partials x)"

definition gradient :: "operand \<Rightarrow> (nat \<Rightarrow> double) \<Rightarrow> nat \<Rightarrow> double list" where
  "gradient x f N =
     (if is_var x then (if stan_length x = 1 then [dsum f N] else map f [0..<N]) else [])"

text \<open>The scaled difference of element \<open>n\<close>, \<open>(y[n] - mu[n]) / (sigma[n] * \<surd>2)\<close>.\<close>

definition scaled_diff_at :: "operand \<Rightarrow> operand \<Rightarrow> operand \<Rightarrow> nat \<Rightarrow> double" where
  "scaled_diff_at y mu sigma n =
     ddiv (dsub (value_at y n) (value_at mu n)) (dmul (value_at sigma n) (Fin (sqrt 2)))"

text \<open>
  The per-element factor of the joint cdf and the quotient that the main loop of
  \<open>normal_cdf\<close> adds for element \<open>n\<close>: the derivative of the factor over the factor.
\<close>

definition cdf_factor ::
  "(double \<Rightarrow> double) \<Rightarrow> (double \<Rightarrow> double) \<Rightarrow> operand \<Rightarrow> operand \<Rightarrow> operand \<Rightarrow> nat \<Rightarrow> double" where
  "cdf_factor erf erfc y mu sigma n = cdf_term erf erfc (scaled_diff_at y mu sigma n)"

definition cdf_rep_deriv ::
  "(double \<Rightarrow> double) \<Rightarrow> (double \<Rightarrow> double) \<Rightarrow> operand \<Rightarrow> operand \<Rightarrow> operand \<Rightarrow> nat \<Rightarrow> double" where
  "cdf_rep_deriv erf erfc y mu sigma n =
     ddiv (ddiv (dmul (dmul (Fin (sqrt (2 / pi))) (Fin 0.5))
                   (dexp (dmul (dneg (scaled_diff_at y mu sigma n)) (scaled_diff_at y mu sigma n))))
             (cdf_factor erf erfc y mu sigma n))
       (value_at sigma n)"

section \<open>Arithmetic of doubles\<close>

lemma threshold_large: "2 ^ 970 \<le> overflow_threshold"
proof -
  have "(2::real) ^ 1024 = 2 ^ 54 * 2 ^ 970"
    by (simp only: power_add [symmetric]) simp
  moreover have "(2::real) \<le> 2 ^ 54"
    using power_increasing [of 1 54 "2::real"] by simp
  ultimately have "2 * (2::real) ^ 970 \<le> 2 ^ 1024"
    by (simp add: mult_right_mono)
  then show ?thesis by (simp add: overflow_threshold_def)
qed

lemma threshold_small: "1024 < overflow_threshold"
proof -
  have "(1024::real) = 2 ^ 10" by simp
  also have "\<dots> < 2 ^ 970" by (rule power_strict_increasing) simp_all
  finally show ?thesis using threshold_large by simp
qed

lemma threshold_below: "overflow_threshold \<le> 2 ^ 1040"
proof -
  have "(2::real) ^ 1024 \<le> 2 ^ 1040" by (rule power_increasing) simp_all
  then show ?thesis by (simp add: overflow_threshold_def)
qed

lemma threshold_pos [simp]: "0 < overflow_threshold"
  using threshold_small by simp

lemma to_double_small: "\<bar>x\<bar> \<le> 1024 \<Longrightarrow> to_double x = Fin x"
  using threshold_small by (simp add: to_double_def)

lemma sqrt2_ge_1: "1 \<le> sqrt (2::real)"
  by simp

lemma to_double_sqrt2: "to_double (sqrt 2) = Fin (sqrt 2)"
proof -
  have "sqrt (2::real) \<le> sqrt (2\<^sup>2)" by (rule real_sqrt_le_mono) simp
  also have "sqrt ((2::real)\<^sup>2) = 2" by simp
  finally have "\<bar>sqrt (2::real)\<bar> \<le> 1024" by simp
  then show ?thesis by (rule to_double_small)
qed

lemma scaled_small:
  assumes "\<bar>c\<bar> \<le> 1024"
  shows "to_double (c * (1 / sqrt 2)) = Fin (c / sqrt 2)"
proof -
  have "\<bar>c / sqrt 2\<bar> = \<bar>c\<bar> / sqrt 2" by simp
  also have "\<dots> \<le> \<bar>c\<bar> / 1"
    by (rule divide_left_mono) (use sqrt2_ge_1 in simp_all)
  finally have "\<bar>c / sqrt 2\<bar> \<le> 1024" using assms by simp
  then have "to_double (c / sqrt 2) = Fin (c / sqrt 2)" by (rule to_double_small)
  then show ?thesis by simp
qed

lemma thresholds:
  "dmul (Fin (- 37.5)) INV_SQRT_2 = Fin (- 37.5 / sqrt 2)"
  "dmul (Fin (- 5)) INV_SQRT_2 = Fin (- 5 / sqrt 2)"
  "dmul (Fin 8.25) INV_SQRT_2 = Fin (8.25 / sqrt 2)"
  unfolding INV_SQRT_2_def dmul.simps by (rule scaled_small; simp)+

lemma sqrt_two_over_pi_bounds: "0 \<le> sqrt (2 / pi)" "sqrt (2 / pi) \<le> 1"
  using pi_ge_two by simp_all

lemma to_double_unit:
  assumes "0 \<le> x" "x \<le> 1"
  shows "to_double x = Fin x" "to_double (x / 2) = Fin (x / 2)" "to_double (x / 4) = Fin (x / 4)"
proof -
  from assms have "\<bar>x\<bar> \<le> 1024" "\<bar>x / 2\<bar> \<le> 1024" "\<bar>x / 4\<bar> \<le> 1024"
    by simp_all
  then show "to_double x = Fin x" "to_double (x / 2) = Fin (x / 2)"
    "to_double (x / 4) = Fin (x / 4)"
    by (simp_all only: to_double_small)
qed

lemmas to_double_sqrt_two_over_pi = to_double_unit [OF sqrt_two_over_pi_bounds]

lemma in_range_to_double [simp]: "in_range (to_double x)"
  using threshold_small by (auto simp: to_double_def inf_of_sign_def)

lemma in_range_inf_of_sign [simp]: "in_range (inf_of_sign x)"
  by (simp add: inf_of_sign_def)

lemma in_range_dadd [simp]: "in_range (dadd a b)"
  by (cases a; cases b) simp_all

lemma in_range_dmul [simp]: "in_range (dmul a b)"
  by (cases a; cases b) simp_all

lemma in_range_ddiv [simp]: "in_range (ddiv a b)"
  by (cases a; cases b) simp_all

lemma in_range_dneg [simp]: "in_range a \<Longrightarrow> in_range (dneg a)"
  by (cases a) simp_all

lemma dadd_zero_left: "in_range a \<Longrightarrow> dadd (Fin 0) a = a"
  by (cases a) (simp_all add: to_double_def)

lemma dadd_NaN_right [simp]: "dadd a NaN = NaN"
  by (cases a) simp_all

lemma dmul_NaN_right [simp]: "dmul a NaN = NaN"
  by (cases a) simp_all

lemma dsub_NaN_right [simp]: "dsub a NaN = NaN"
  by (simp add: dsub_def)

section \<open>Views and folds\<close>

lemma view_map: "0 < length xs \<Longrightarrow> length xs = 1 \<or> length xs = N \<Longrightarrow> n < N \<Longrightarrow>
  view (map f xs) n = f (view xs n)"
  by (auto simp: view_def view_index_def)

lemma fold_proj:
  assumes "\<And>n s. n \<in> set ns \<Longrightarrow> p (f n s) = g n (p s)"
  shows "p (fold f ns s) = fold g ns (p s)"
  using assms by (induction ns arbitrary: s) simp_all

lemma fold_id: "fold (\<lambda>n d. d) ns d = d"
  by (induction ns) simp_all

lemma sub_at_add_at: "sub_at d n v = add_at d n (dneg v)"
  by (simp add: sub_at_def add_at_def dsub_def)

lemma include_summand_simps:
  "include_summand propto [] = (\<not> propto)"
  "include_summand propto [a] = (\<not> propto \<or> is_var a)"
  "include_summand propto [a, b, c] = (\<not> propto \<or> is_var a \<or> is_var b \<or> is_var c)"
  by (auto simp: include_summand_def)

lemma fold_add_at_single:
  "fold (\<lambda>n d. add_at d n (f n)) ns [v] = [fold (\<lambda>n v. dadd v (f n)) ns v]"
  by (induction ns arbitrary: v) (simp_all add: add_at_def view_index_def)

lemma accumulate_single:
  "is_var x \<Longrightarrow> stan_length x = 1 \<Longrightarrow> accumulate x f N = [dsum f N]"
  by (simp add: accumulate_def new_partials_def is_constant_struct_def dsum_def
      fold_add_at_single)

lemma fold_add_at_prefix:
  assumes "L \<noteq> 1" "k \<le> L" "\<And>n. in_range (f n)"
  shows "fold (\<lambda>n d. add_at d n (f n)) [0..<k] (replicate L (Fin 0))
         = map f [0..<k] @ replicate (L - k) (Fin 0)"
  using assms(2)
proof (induction k)
  case 0
  then show ?case by simp
next
  case (Suc k)
  then have k: "k < L" by simp
  then have r: "replicate (L - k) (Fin 0) = Fin 0 # replicate (L - Suc k) (Fin 0)"
    by (metis Suc_diff_Suc replicate_Suc)
  have "fold (\<lambda>n d. add_at d n (f n)) [0..<Suc k] (replicate L (Fin 0))
        = add_at (map f [0..<k] @ replicate (L - k) (Fin 0)) k (f k)"
    using Suc by simp
  also have "\<dots> = map f [0..<Suc k] @ replicate (L - Suc k) (Fin 0)"
    using k assms(1)
    by (simp add: add_at_def view_index_def r nth_append list_update_append
        dadd_zero_left [OF assms(3)])
  finally show ?case .
qed

lemma accumulate_full:
  "is_var x \<Longrightarrow> stan_length x = N \<Longrightarrow> N \<noteq> 1 \<Longrightarrow> (\<And>n. in_range (f n)) \<Longrightarrow>
   accumulate x f N = map f [0..<N]"
  using fold_add_at_prefix [of N N f]
  by (simp add: accumulate_def new_partials_def is_constant_struct_def)

lemma accumulate_const: "\<not> is_var x \<Longrightarrow> accumulate x f N = []"
  unfolding accumulate_def new_partials_def is_constant_struct_def
  by (induction N) (simp_all add: add_at_def)

lemma accumulate_gradient:
  "stan_length x = 1 \<or> stan_length x = N \<Longrightarrow> (\<And>n. in_range (f n)) \<Longrightarrow>
   accumulate x f N = gradient x f N"
  by (cases "is_var x"; cases "stan_length x = 1")
     (auto simp: gradient_def accumulate_single accumulate_full accumulate_const)

lemma fold_mul_at_prefix:
  assumes "k \<le> length d"
  shows "fold (\<lambda>n d'. mul_at d' n c) [0..<k] d = map (\<lambda>v. dmul v c) (take k d) @ drop k d"
  using assms
proof (induction k)
  case 0
  then show ?case by simp
next
  case (Suc k)
  then have k: "k < length d" by simp
  have vi: "view_index (length d) k = k"
    using k by (auto simp: view_index_def)
  have "fold (\<lambda>n d'. mul_at d' n c) [0..<Suc k] d
        = mul_at (map (\<lambda>v. dmul v c) (take k d) @ drop k d) k c"
    using Suc by simp
  also have "\<dots> = map (\<lambda>v. dmul v c) (take (Suc k) d) @ drop (Suc k) d"
  proof -
    let ?X = "map (\<lambda>v. dmul v c) (take k d) @ drop k d"
    have len: "length ?X = length d" using k by simp
    have dk: "drop k d = d ! k # drop (Suc k) d"
      using k by (simp add: Cons_nth_drop_Suc)
    have "mul_at ?X k c = ?X[k := dmul (?X ! k) c]"
      unfolding mul_at_def Let_def len vi ..
    also have "?X ! k = d ! k"
      using k by (simp add: nth_append)
    also have "?X[k := dmul (d ! k) c]
               = map (\<lambda>v. dmul v c) (take k d) @ dmul (d ! k) c # drop (Suc k) d"
      using k by (simp add: list_update_append dk)
    also have "\<dots> = map (\<lambda>v. dmul v c) (take (Suc k) d) @ drop (Suc k) d"
      using k by (simp add: take_Suc_conv_app_nth)
    finally show ?thesis .
  qed
  finally show ?case .
qed

lemma rescale_map:
  "length d = (if is_var x then stan_length x else 0) \<Longrightarrow>
   rescale x c d = map (\<lambda>v. dmul v c) d"
  using fold_mul_at_prefix [of "length d" d c]
  by (auto simp: rescale_def is_constant_struct_def)

lemma length_add_at [simp]: "length (add_at d n v) = length d"
  by (simp add: add_at_def Let_def)

lemma length_accumulate: "length (accumulate x f N) = (if is_var x then stan_length x else 0)"
proof -
  have "length (fold (\<lambda>n d. add_at d n (f n)) ns d) = length d" for ns d
    by (induction ns arbitrary: d) simp_all
  then show ?thesis
    by (simp add: accumulate_def new_partials_def is_constant_struct_def)
qed

section \<open>The loop of normal_log\<close>

lemma normal_log_valid:
  assumes "valid_args y mu sigma"
  shows "normal_log propto y mu sigma =
     (if \<not> include_summand propto [y, mu, sigma] then Inr (plain (Fin 0))
      else Inr (fold (normal_log_step propto y mu sigma
                        (map (\<lambda>s. ddiv (Fin 1) s) (elems sigma))
                        (if include_summand propto [sigma] then map dlog (elems sigma) else []))
                  [0..<max_size y mu sigma] (operands_and_partials (Fin 0) y mu sigma)))"
  using assms
  unfolding normal_log_def valid_args_def check_not_nan_def check_finite_def
    check_positive_def check_consistent_sizes_def
  by (simp add: Let_def)

lemma valid_sigma_at:
  assumes "valid_args y mu sigma" "n < max_size y mu sigma"
  shows "view (map f (elems sigma)) n = f (value_at sigma n)"
proof -
  from assms(1) have len: "0 < length (elems sigma)"
    "length (elems sigma) = 1 \<or> length (elems sigma) = max_size y mu sigma"
    by (auto simp: valid_args_def stan_length_def consistent_size_def)
  from view_map [OF len assms(2)] show ?thesis
    by (simp add: value_at_def)
qed

lemma valid_lengths:
  assumes "valid_args y mu sigma"
  shows "stan_length y = 1 \<or> stan_length y = max_size y mu sigma"
    and "stan_length mu = 1 \<or> stan_length mu = max_size y mu sigma"
    and "stan_length sigma = 1 \<or> stan_length sigma = max_size y mu sigma"
  using assms by (auto simp: valid_args_def consistent_size_def)




lemma normal_log_step_d_x1:
  assumes "valid_args y mu sigma" "n < max_size y mu sigma"
  shows "d_x1 (normal_log_step propto y mu sigma (map (\<lambda>s. ddiv (Fin 1) s) (elems sigma)) ls n st)
         = (if is_var y then add_at (d_x1 st) n (dy_term y mu sigma n) else d_x1 st)"
  unfolding normal_log_step_def Let_def valid_sigma_at [OF assms]
  by (simp add: is_constant_struct_def sub_at_add_at dy_term_def z_recip_def recip_def)

lemma normal_log_step_d_x2:
  assumes "valid_args y mu sigma" "n < max_size y mu sigma"
  shows "d_x2 (normal_log_step propto y mu sigma (map (\<lambda>s. ddiv (Fin 1) s) (elems sigma)) ls n st)
         = (if is_var mu then add_at (d_x2 st) n (dmu_term y mu sigma n) else d_x2 st)"
  unfolding normal_log_step_def Let_def valid_sigma_at [OF assms]
  by (simp add: is_constant_struct_def dmu_term_def z_recip_def recip_def)

lemma normal_log_step_d_x3:
  assumes "valid_args y mu sigma" "n < max_size y mu sigma"
  shows "d_x3 (normal_log_step propto y mu sigma (map (\<lambda>s. ddiv (Fin 1) s) (elems sigma)) ls n st)
         = (if is_var sigma then add_at (d_x3 st) n (dsigma_term y mu sigma n) else d_x3 st)"
  unfolding normal_log_step_def Let_def valid_sigma_at [OF assms]
  by (simp add: is_constant_struct_def dsigma_term_def z_recip_def recip_def)



lemma normal_log_accumulates:
  assumes "valid_args y mu sigma" "include_summand propto [y, mu, sigma]"
  shows "\<exists>r. normal_log propto y mu sigma = Inr r \<and>
     d_x1 r = (if is_var y then accumulate y (dy_term y mu sigma) (max_size y mu sigma) else []) \<and>
     d_x2 r = (if is_var mu then accumulate mu (dmu_term y mu sigma) (max_size y mu sigma)
               else []) \<and>
     d_x3 r = (if is_var sigma
               then accumulate sigma (dsigma_term y mu sigma) (max_size y mu sigma) else [])"
proof -
  let ?N = "max_size y mu sigma"
  let ?step = "normal_log_step propto y mu sigma (map (\<lambda>s. ddiv (Fin 1) s) (elems sigma))
                 (if include_summand propto [sigma] then map dlog (elems sigma) else [])"
  let ?st = "operands_and_partials (Fin 0) y mu sigma"
  have r: "normal_log propto y mu sigma = Inr (fold ?step [0..<?N] ?st)"
    using assms(2) by (simp add: normal_log_valid [OF assms(1)])
  have "d_x1 (fold ?step [0..<?N] ?st)
        = fold (\<lambda>n d. if is_var y then add_at d n (dy_term y mu sigma n) else d) [0..<?N]
            (d_x1 ?st)"
    by (rule fold_proj) (simp add: normal_log_step_d_x1 [OF assms(1)])
  then have 1: "d_x1 (fold ?step [0..<?N] ?st)
        = (if is_var y then accumulate y (dy_term y mu sigma) ?N else [])"
    by (simp add: accumulate_def operands_and_partials_def new_partials_def
        is_constant_struct_def fold_id)
  have "d_x2 (fold ?step [0..<?N] ?st)
        = fold (\<lambda>n d. if is_var mu then add_at d n (dmu_term y mu sigma n) else d) [0..<?N]
            (d_x2 ?st)"
    by (rule fold_proj) (simp add: normal_log_step_d_x2 [OF assms(1)])
  then have 2: "d_x2 (fold ?step [0..<?N] ?st)
        = (if is_var mu then accumulate mu (dmu_term y mu sigma) ?N else [])"
    by (simp add: accumulate_def operands_and_partials_def new_partials_def
        is_constant_struct_def fold_id)
  have "d_x3 (fold ?step [0..<?N] ?st)
        = fold (\<lambda>n d. if is_var sigma then add_at d n (dsigma_term y mu sigma n) else d) [0..<?N]
            (d_x3 ?st)"
    by (rule fold_proj) (simp add: normal_log_step_d_x3 [OF assms(1)])
  then have 3: "d_x3 (fold ?step [0..<?N] ?st)
        = (if is_var sigma then accumulate sigma (dsigma_term y mu sigma) ?N else [])"
    by (simp add: accumulate_def operands_and_partials_def new_partials_def
        is_constant_struct_def fold_id)
  from r 1 2 3 show ?thesis by simp
qed

lemma in_range_terms [simp]:
  "in_range (dy_term y mu sigma n)" "in_range (dmu_term y mu sigma n)"
  "in_range (dsigma_term y mu sigma n)" "in_range (quad_term y mu sigma n)"
  by (simp_all add: dy_term_def dmu_term_def dsigma_term_def quad_term_def)




lemma valid_scalars:
  "\<not> is_nan a \<Longrightarrow> is_finite m \<Longrightarrow> is_positive s \<Longrightarrow>
   valid_args \<lparr>is_var = ty, elems = [a]\<rparr> \<lparr>is_var = tm, elems = [m]\<rparr> \<lparr>is_var = ts, elems = [s]\<rparr>"
  by (simp add: valid_args_def stan_length_def consistent_size_def max_size_def)

lemma valid_pair:
  "\<not> is_nan a \<Longrightarrow> \<not> is_nan b \<Longrightarrow> is_finite m \<Longrightarrow> is_positive s \<Longrightarrow>
   valid_args \<lparr>is_var = ty, elems = [a, b]\<rparr> \<lparr>is_var = tm, elems = [m]\<rparr>
     \<lparr>is_var = ts, elems = [s]\<rparr>"
  by (simp add: valid_args_def stan_length_def consistent_size_def max_size_def)

lemma upt_two: "[0..<2] = [0, Suc 0]"
  by (simp add: upt_rec)

lemma dsum_two: "in_range (f 0) \<Longrightarrow> dsum f 2 = dadd (f 0) (f (Suc 0))"
  by (simp add: dsum_def upt_two dadd_zero_left)

text \<open>The reciprocal of the subnormal \<open>2\<^sup>-\<^sup>1\<^sup>0\<^sup>4\<^sup>0\<close> overflows.\<close>

lemma recip_tiny: "ddiv (Fin 1) (Fin (1 / 2 ^ 1040)) = PInf"
  using threshold_below by (simp add: to_double_def inf_of_sign_def)

lemma tiny_positive: "is_positive (Fin (1 / 2 ^ 1040))"
  by (simp add: is_positive_def dgt_def)

lemma max_size_scalars:
  "max_size \<lparr>is_var = ty, elems = [a]\<rparr> \<lparr>is_var = tm, elems = [m]\<rparr> \<lparr>is_var = ts, elems = [s]\<rparr>
   = Suc 0"
  by (simp add: max_size_def stan_length_def)

lemma zero_times_inf: "dmul (dsub (Fin 0) (Fin 0)) PInf = NaN"
  by (simp add: dsub_def to_double_small inf_of_sign_def)


lemma normal_log_overflow_tracked:
  assumes "ddiv (Fin 1) (Fin s) = PInf" "is_positive (Fin s)"
  shows "normal_log False \<lparr>is_var = True, elems = [Fin 0]\<rparr> \<lparr>is_var = True, elems = [Fin 0]\<rparr>
           \<lparr>is_var = True, elems = [Fin s]\<rparr>
         = Inr \<lparr>val = NaN, d_x1 = [NaN], d_x2 = [NaN], d_x3 = [NaN]\<rparr>"
proof -
  let ?z = "\<lparr>is_var = True, elems = [Fin 0]\<rparr>"
  let ?s = "\<lparr>is_var = True, elems = [Fin s]\<rparr>"
  have v: "valid_args ?z ?z ?s"
    using assms(2) by (intro valid_scalars) simp_all
  show ?thesis
    unfolding normal_log_valid [OF v] max_size_scalars
    by (simp add: include_summand_simps normal_log_step_def Let_def value_at_def view_def
        view_index_def assms(1) zero_times_inf operands_and_partials_def new_partials_def
        is_constant_struct_def stan_length_def add_at_def sub_at_def del: ddiv.simps)
qed




text \<open>The quotients by \<open>sigma\<close> at the same input: \<open>0 / sigma\<close> is 0.\<close>

lemma quotients_at_overflow:
  assumes "ddiv (Fin 1) (Fin s) = PInf" "is_positive (Fin s)"
  shows "d_dy \<lparr>is_var = True, elems = [Fin 0]\<rparr> \<lparr>is_var = True, elems = [Fin 0]\<rparr>
           \<lparr>is_var = True, elems = [Fin s]\<rparr> 0 = Fin 0"
    and "d_dmu \<lparr>is_var = True, elems = [Fin 0]\<rparr> \<lparr>is_var = True, elems = [Fin 0]\<rparr>
           \<lparr>is_var = True, elems = [Fin s]\<rparr> 0 = Fin 0"
    and "d_dsigma \<lparr>is_var = True, elems = [Fin 0]\<rparr> \<lparr>is_var = True, elems = [Fin 0]\<rparr>
           \<lparr>is_var = True, elems = [Fin s]\<rparr> 0 = NInf"
proof -
  from assms(2) have s: "s \<noteq> 0"
    by (simp add: is_positive_def dgt_def)
  have z: "ddiv (Fin 0) (Fin s) = Fin 0"
    using s by (simp add: to_double_small)
  have d: "dsub (Fin 0) (Fin 0) = Fin 0" "dmul (Fin 0) (Fin 0) = Fin 0"
    by (simp_all add: dsub_def to_double_small)
  have zs: "z_score \<lparr>is_var = True, elems = [Fin 0]\<rparr> \<lparr>is_var = True, elems = [Fin 0]\<rparr>
      \<lparr>is_var = True, elems = [Fin s]\<rparr> 0 = Fin 0"
    by (simp add: z_score_def value_at_def view_def view_index_def d z del: ddiv.simps)
  show "d_dy \<lparr>is_var = True, elems = [Fin 0]\<rparr> \<lparr>is_var = True, elems = [Fin 0]\<rparr>
      \<lparr>is_var = True, elems = [Fin s]\<rparr> 0 = Fin 0"
    by (simp add: d_dy_def zs value_at_def view_def view_index_def z del: ddiv.simps)
  show "d_dmu \<lparr>is_var = True, elems = [Fin 0]\<rparr> \<lparr>is_var = True, elems = [Fin 0]\<rparr>
      \<lparr>is_var = True, elems = [Fin s]\<rparr> 0 = Fin 0"
    by (simp add: d_dmu_def zs value_at_def view_def view_index_def z del: ddiv.simps)
  show "d_dsigma \<lparr>is_var = True, elems = [Fin 0]\<rparr> \<lparr>is_var = True, elems = [Fin 0]\<rparr>
      \<lparr>is_var = True, elems = [Fin s]\<rparr> 0 = NInf"
    by (simp add: d_dsigma_def zs value_at_def view_def view_index_def z d assms(1)
        to_double_small del: ddiv.simps)
qed

section \<open>The value of normal_log\<close>




section \<open>Zero-length arguments\<close>

lemma normal_log_empty:
  "stan_length y = 0 \<or> stan_length mu = 0 \<or> stan_length sigma = 0 \<Longrightarrow>
   normal_log propto y mu sigma = Inr (plain (Fin 0))"
  unfolding normal_log_def by auto

lemma normal_cdf_empty:
  "stan_length y = 0 \<or> stan_length mu = 0 \<or> stan_length sigma = 0 \<Longrightarrow>
   normal_cdf erf erfc y mu sigma = Inr (plain (Fin 1))"
  unfolding normal_cdf_def by auto

text \<open>
  C6.  When some argument has length 0 the evaluator returns the identity value of its
  operation and nothing else: \<open>normal_log\<close> returns 0 and \<open>normal_cdf\<close> returns 1, with
  no derivative.
\<close>

theorem zero_length_identity:
  "stan_length y = 0 \<or> stan_length mu = 0 \<or> stan_length sigma = 0 \<Longrightarrow>
   normal_log propto y mu sigma = Inr \<lparr>val = Fin 0, d_x1 = [], d_x2 = [], d_x3 = []\<rparr> \<and>
   normal_cdf erf erfc y mu sigma = Inr \<lparr>val = Fin 1, d_x1 = [], d_x2 = [], d_x3 = []\<rparr>"
  by (simp add: normal_log_empty normal_cdf_empty plain_def)

theorem zero_length_identity_witness:
  "stan_length \<lparr>is_var = False, elems = []\<rparr> = 0 \<and>
   normal_log False \<lparr>is_var = False, elems = []\<rparr> \<lparr>is_var = True, elems = [Fin 0]\<rparr>
     \<lparr>is_var = True, elems = [Fin 1]\<rparr> = Inr \<lparr>val = Fin 0, d_x1 = [], d_x2 = [], d_x3 = []\<rparr> \<and>
   normal_cdf (\<lambda>x. x) (\<lambda>x. x) \<lparr>is_var = False, elems = []\<rparr> \<lparr>is_var = True, elems = [Fin 0]\<rparr>
     \<lparr>is_var = True, elems = [Fin 1]\<rparr> = Inr \<lparr>val = Fin 1, d_x1 = [], d_x2 = [], d_x3 = []\<rparr>"
proof -
  have e: "stan_length \<lparr>is_var = False, elems = []\<rparr> = 0"
    by (simp add: stan_length_def)
  from zero_length_identity [of "\<lparr>is_var = False, elems = []\<rparr>" "\<lparr>is_var = True, elems = [Fin 0]\<rparr>"
      "\<lparr>is_var = True, elems = [Fin 1]\<rparr>" False "\<lambda>x. x" "\<lambda>x. x"] e
  show ?thesis by simp
qed

text \<open>
  C10.  The test for a zero-length argument comes before every check: when some argument
  has length 0, \<open>normal_log\<close> returns 0 and \<open>normal_cdf\<close> returns 1 and neither raises an
  error, whatever the other arguments hold (a negative or NaN \<open>sigma\<close>, lengths that do
  not match).
\<close>

theorem zero_length_before_validation:
  "stan_length y = 0 \<or> stan_length mu = 0 \<or> stan_length sigma = 0 \<Longrightarrow>
   normal_log propto y mu sigma = Inr (plain (Fin 0)) \<and>
   normal_cdf erf erfc y mu sigma = Inr (plain (Fin 1)) \<and>
   (\<forall>e. normal_log propto y mu sigma \<noteq> Inl e) \<and>
   (\<forall>e. normal_cdf erf erfc y mu sigma \<noteq> Inl e)"
  by (simp add: normal_log_empty normal_cdf_empty)

theorem zero_length_before_validation_witness:
  "stan_length \<lparr>is_var = False, elems = []\<rparr> = 0 \<and>
   check_positive normal_log_name \<lparr>is_var = False, elems = [NaN, Fin (- 1)]\<rparr> ''Scale parameter''
     = Inl (DomainError normal_log_name ''Scale parameter'') \<and>
   check_consistent_sizes normal_log_name \<lparr>is_var = False, elems = []\<rparr>
     \<lparr>is_var = False, elems = [Fin 0, Fin 0, Fin 0]\<rparr> \<lparr>is_var = False, elems = [NaN, Fin (- 1)]\<rparr>
     = Inl (ShapeMismatch normal_log_name) \<and>
   normal_log False \<lparr>is_var = False, elems = []\<rparr> \<lparr>is_var = False, elems = [Fin 0, Fin 0, Fin 0]\<rparr>
     \<lparr>is_var = False, elems = [NaN, Fin (- 1)]\<rparr> = Inr (plain (Fin 0)) \<and>
   normal_cdf (\<lambda>x. x) (\<lambda>x. x) \<lparr>is_var = False, elems = []\<rparr>
     \<lparr>is_var = False, elems = [Fin 0, Fin 0, Fin 0]\<rparr>
     \<lparr>is_var = False, elems = [NaN, Fin (- 1)]\<rparr> = Inr (plain (Fin 1))"
proof -
  have e: "stan_length \<lparr>is_var = False, elems = []\<rparr> = 0"
    by (simp add: stan_length_def)
  have p: "check_positive normal_log_name \<lparr>is_var = False, elems = [NaN, Fin (- 1)]\<rparr>
      ''Scale parameter'' = Inl (DomainError normal_log_name ''Scale parameter'')"
    by (simp add: check_positive_def is_positive_def dgt_def)
  have c: "check_consistent_sizes normal_log_name \<lparr>is_var = False, elems = []\<rparr>
     \<lparr>is_var = False, elems = [Fin 0, Fin 0, Fin 0]\<rparr> \<lparr>is_var = False, elems = [NaN, Fin (- 1)]\<rparr>
     = Inl (ShapeMismatch normal_log_name)"
    by (simp add: check_consistent_sizes_def consistent_size_def max_size_def stan_length_def)
  from zero_length_before_validation [of "\<lparr>is_var = False, elems = []\<rparr>"
      "\<lparr>is_var = False, elems = [Fin 0, Fin 0, Fin 0]\<rparr>"
      "\<lparr>is_var = False, elems = [NaN, Fin (- 1)]\<rparr>" False "\<lambda>x. x" "\<lambda>x. x"] e p c
  show ?thesis by simp
qed


section \<open>Proportional mode\<close>





section \<open>The derivatives of normal_log\<close>

text \<open>
  C4, as stated: on every valid input \<open>normal_log\<close> accumulates \<open>-z/sigma[n]\<close>,
  \<open>z/sigma[n]\<close> and \<open>-1/sigma[n] + z\<^sup>2/sigma[n]\<close> with \<open>z = (y[n] - mu[n]) / sigma[n]\<close>.  The
  code multiplies by the reciprocal \<open>1 / sigma[n]\<close> instead of dividing, which differs
  where the reciprocal overflows: with \<open>y = mu = 0\<close> and the subnormal
  \<open>sigma = 2\<^sup>-\<^sup>1\<^sup>0\<^sup>4\<^sup>0\<close> the three derivatives are NaN, where the quotients are \<open>0\<close>, \<open>0\<close> and
  \<open>-\<infinity>\<close>.
\<close>

theorem normal_log_derivatives_counterexample:
  "valid_args \<lparr>is_var = True, elems = [Fin 0]\<rparr> \<lparr>is_var = True, elems = [Fin 0]\<rparr>
     \<lparr>is_var = True, elems = [Fin (1 / 2 ^ 1040)]\<rparr> \<and>
   normal_log False \<lparr>is_var = True, elems = [Fin 0]\<rparr> \<lparr>is_var = True, elems = [Fin 0]\<rparr>
     \<lparr>is_var = True, elems = [Fin (1 / 2 ^ 1040)]\<rparr>
     = Inr \<lparr>val = NaN, d_x1 = [NaN], d_x2 = [NaN], d_x3 = [NaN]\<rparr> \<and>
   d_dy \<lparr>is_var = True, elems = [Fin 0]\<rparr> \<lparr>is_var = True, elems = [Fin 0]\<rparr>
     \<lparr>is_var = True, elems = [Fin (1 / 2 ^ 1040)]\<rparr> 0 = Fin 0 \<and>
   d_dmu \<lparr>is_var = True, elems = [Fin 0]\<rparr> \<lparr>is_var = True, elems = [Fin 0]\<rparr>
     \<lparr>is_var = True, elems = [Fin (1 / 2 ^ 1040)]\<rparr> 0 = Fin 0 \<and>
   d_dsigma \<lparr>is_var = True, elems = [Fin 0]\<rparr> \<lparr>is_var = True, elems = [Fin 0]\<rparr>
     \<lparr>is_var = True, elems = [Fin (1 / 2 ^ 1040)]\<rparr> 0 = NInf"
proof -
  let ?z = "\<lparr>is_var = True, elems = [Fin 0]\<rparr>"
  let ?s = "\<lparr>is_var = True, elems = [Fin (1 / 2 ^ 1040)]\<rparr>"
  have v: "valid_args ?z ?z ?s"
    by (intro valid_scalars tiny_positive) simp_all
  have r: "normal_log False ?z ?z ?s
      = Inr \<lparr>val = NaN, d_x1 = [NaN], d_x2 = [NaN], d_x3 = [NaN]\<rparr>"
    by (rule normal_log_overflow_tracked [OF recip_tiny tiny_positive])
  have q: "d_dy ?z ?z ?s 0 = Fin 0" "d_dmu ?z ?z ?s 0 = Fin 0" "d_dsigma ?z ?z ?s 0 = NInf"
    by (rule quotients_at_overflow [OF recip_tiny tiny_positive])+
  from v r q show ?thesis by blast
qed

text \<open>
  C4, amended.  On every valid input \<open>normal_log\<close> adds, at each broadcast index \<open>n\<close>,
  \<open>-(inv * z)\<close> into the accumulator of \<open>y\<close>, \<open>inv * z\<close> into that of \<open>mu\<close> and
  \<open>-inv + inv * z\<^sup>2\<close> into that of \<open>sigma\<close>, where \<open>inv = 1 / sigma[n]\<close> is the reciprocal
  computed first and \<open>z = (y[n] - mu[n]) * inv\<close>, each operation in double arithmetic: a
  tracked argument of length 1 ends with the running sum over all \<open>n\<close> in its one slot, a
  longer one with the term of \<open>n\<close> in slot \<open>n\<close>.  A constant argument receives no
  derivative.
\<close>

theorem normal_log_derivatives:
  assumes "valid_args y mu sigma"
  shows "\<exists>r. normal_log propto y mu sigma = Inr r \<and>
     d_x1 r = gradient y (dy_term y mu sigma) (max_size y mu sigma) \<and>
     d_x2 r = gradient mu (dmu_term y mu sigma) (max_size y mu sigma) \<and>
     d_x3 r = gradient sigma (dsigma_term y mu sigma) (max_size y mu sigma) \<and>
     d_x1 r = accumulate y (dy_term y mu sigma) (max_size y mu sigma) \<and>
     d_x2 r = accumulate mu (dmu_term y mu sigma) (max_size y mu sigma) \<and>
     d_x3 r = accumulate sigma (dsigma_term y mu sigma) (max_size y mu sigma) \<and>
     (is_constant_struct y \<longrightarrow> d_x1 r = []) \<and>
     (is_constant_struct mu \<longrightarrow> d_x2 r = []) \<and>
     (is_constant_struct sigma \<longrightarrow> d_x3 r = [])"
proof (cases "include_summand propto [y, mu, sigma]")
  case True
  note len = valid_lengths [OF assms]
  from normal_log_accumulates [OF assms True] obtain r where
    r: "normal_log propto y mu sigma = Inr r"
    and 1: "d_x1 r = (if is_var y then accumulate y (dy_term y mu sigma) (max_size y mu sigma)
                      else [])"
    and 2: "d_x2 r = (if is_var mu then accumulate mu (dmu_term y mu sigma) (max_size y mu sigma)
                      else [])"
    and 3: "d_x3 r = (if is_var sigma
                      then accumulate sigma (dsigma_term y mu sigma) (max_size y mu sigma)
                      else [])"
    by blast
  have a1: "d_x1 r = accumulate y (dy_term y mu sigma) (max_size y mu sigma)"
    using 1 by (simp add: accumulate_const)
  have a2: "d_x2 r = accumulate mu (dmu_term y mu sigma) (max_size y mu sigma)"
    using 2 by (simp add: accumulate_const)
  have a3: "d_x3 r = accumulate sigma (dsigma_term y mu sigma) (max_size y mu sigma)"
    using 3 by (simp add: accumulate_const)
  have g1: "d_x1 r = gradient y (dy_term y mu sigma) (max_size y mu sigma)"
    using a1 accumulate_gradient [OF len(1), of "dy_term y mu sigma"] by simp
  have g2: "d_x2 r = gradient mu (dmu_term y mu sigma) (max_size y mu sigma)"
    using a2 accumulate_gradient [OF len(2), of "dmu_term y mu sigma"] by simp
  have g3: "d_x3 r = gradient sigma (dsigma_term y mu sigma) (max_size y mu sigma)"
    using a3 accumulate_gradient [OF len(3), of "dsigma_term y mu sigma"] by simp
  from r a1 a2 a3 g1 g2 g3 show ?thesis
    by (simp add: is_constant_struct_def accumulate_const)
next
  case False
  then have c: "\<not> is_var y" "\<not> is_var mu" "\<not> is_var sigma"
    by (simp_all add: include_summand_simps)
  from False have "normal_log propto y mu sigma = Inr (plain (Fin 0))"
    by (simp add: normal_log_valid [OF assms])
  with c show ?thesis
    by (simp add: plain_def gradient_def accumulate_const is_constant_struct_def)
qed

theorem normal_log_derivatives_witness:
  "valid_args \<lparr>is_var = True, elems = [Fin 1, Fin 3]\<rparr> \<lparr>is_var = True, elems = [Fin 0]\<rparr>
     \<lparr>is_var = False, elems = [Fin 2]\<rparr> \<and>
   (\<exists>r. normal_log False \<lparr>is_var = True, elems = [Fin 1, Fin 3]\<rparr>
           \<lparr>is_var = True, elems = [Fin 0]\<rparr> \<lparr>is_var = False, elems = [Fin 2]\<rparr> = Inr r \<and>
         d_x1 r = [Fin (- (1 / 4)), Fin (- (3 / 4))] \<and> d_x2 r = [Fin 1] \<and> d_x3 r = [])"
proof -
  let ?y = "\<lparr>is_var = True, elems = [Fin 1, Fin 3]\<rparr>"
  let ?mu = "\<lparr>is_var = True, elems = [Fin 0]\<rparr>"
  let ?sigma = "\<lparr>is_var = False, elems = [Fin 2]\<rparr>"
  have v: "valid_args ?y ?mu ?sigma"
    by (intro valid_pair) (simp_all add: is_positive_def dgt_def)
  have N: "max_size ?y ?mu ?sigma = 2"
    by (simp add: max_size_def stan_length_def)
  have i: "recip ?sigma n = Fin (1 / 2)" for n
    by (simp add: recip_def value_at_def view_def view_index_def to_double_small)
  have z: "z_recip ?y ?mu ?sigma 0 = Fin (1 / 2)" "z_recip ?y ?mu ?sigma (Suc 0) = Fin (3 / 2)"
    by (simp_all add: z_recip_def i value_at_def view_def view_index_def dsub_def
        to_double_small)
  have t: "dy_term ?y ?mu ?sigma 0 = Fin (- (1 / 4))"
    "dy_term ?y ?mu ?sigma (Suc 0) = Fin (- (3 / 4))"
    "dmu_term ?y ?mu ?sigma 0 = Fin (1 / 4)" "dmu_term ?y ?mu ?sigma (Suc 0) = Fin (3 / 4)"
    by (simp_all add: dy_term_def dmu_term_def i z to_double_small)
  have g1: "gradient ?y (dy_term ?y ?mu ?sigma) 2 = [Fin (- (1 / 4)), Fin (- (3 / 4))]"
    by (simp add: gradient_def stan_length_def upt_two t)
  have d: "dsum (dmu_term ?y ?mu ?sigma) 2
      = dadd (dmu_term ?y ?mu ?sigma 0) (dmu_term ?y ?mu ?sigma (Suc 0))"
    by (rule dsum_two) (rule in_range_terms)
  have g2: "gradient ?mu (dmu_term ?y ?mu ?sigma) 2 = [Fin 1]"
    by (simp add: gradient_def stan_length_def d t to_double_small)
  have g3: "gradient ?sigma (dsigma_term ?y ?mu ?sigma) 2 = []"
    by (simp add: gradient_def)
  from normal_log_derivatives [OF v, of False] obtain r where
    "normal_log False ?y ?mu ?sigma = Inr r"
    "d_x1 r = gradient ?y (dy_term ?y ?mu ?sigma) (max_size ?y ?mu ?sigma)"
    "d_x2 r = gradient ?mu (dmu_term ?y ?mu ?sigma) (max_size ?y ?mu ?sigma)"
    "d_x3 r = gradient ?sigma (dsigma_term ?y ?mu ?sigma) (max_size ?y ?mu ?sigma)"
    by blast
  with v show ?thesis
    by (simp add: N g1 g2 g3)
qed

section \<open>The loops of normal_cdf\<close>

lemma is_positive_not_nan: "is_positive v \<Longrightarrow> \<not> is_nan v"
  by (cases v) (simp_all add: is_positive_def dgt_def)

lemma positive_not_nan: "list_all is_positive xs \<Longrightarrow> \<not> list_ex is_nan xs"
  by (induction xs) (auto simp: is_positive_not_nan)

lemma normal_cdf_valid:
  assumes "valid_args y mu sigma"
  shows "normal_cdf erf erfc y mu sigma
         = Inr (normal_cdf_post y mu sigma (normal_cdf_loop erf erfc y mu sigma))"
  using assms positive_not_nan [of "elems sigma"]
  unfolding normal_cdf_def valid_args_def check_not_nan_def check_finite_def
    check_positive_def check_consistent_sizes_def
  by (simp add: Let_def)

lemma scaled_diff_of_at:
  "scaled_diff_of (value_at y n) (value_at mu n) (value_at sigma n) = scaled_diff_at y mu sigma n"
  by (simp add: scaled_diff_of_def scaled_diff_at_def SQRT_2_def)

lemma normal_cdf_step_val:
  "val (normal_cdf_step erf erfc y mu sigma n st)
   = dmul (val st) (cdf_factor erf erfc y mu sigma n)"
  by (simp add: normal_cdf_step_def Let_def scaled_diff_of_at cdf_factor_def)

lemma normal_cdf_step_d_x1:
  "d_x1 (normal_cdf_step erf erfc y mu sigma n st)
   = (if is_var y then add_at (d_x1 st) n (cdf_rep_deriv erf erfc y mu sigma n) else d_x1 st)"
  by (simp add: normal_cdf_step_def Let_def scaled_diff_of_at cdf_factor_def cdf_rep_deriv_def
      is_constant_struct_def SQRT_TWO_OVER_PI_def)

lemma normal_cdf_step_d_x2:
  "d_x2 (normal_cdf_step erf erfc y mu sigma n st)
   = (if is_var mu then add_at (d_x2 st) n (dneg (cdf_rep_deriv erf erfc y mu sigma n))
      else d_x2 st)"
  by (simp add: normal_cdf_step_def Let_def scaled_diff_of_at cdf_factor_def cdf_rep_deriv_def
      is_constant_struct_def SQRT_TWO_OVER_PI_def sub_at_add_at)

lemma normal_cdf_step_d_x3:
  "d_x3 (normal_cdf_step erf erfc y mu sigma n st)
   = (if is_var sigma
      then add_at (d_x3 st) n
             (dneg (dmul (dmul (cdf_rep_deriv erf erfc y mu sigma n) (scaled_diff_at y mu sigma n))
                      (Fin (sqrt 2))))
      else d_x3 st)"
  by (simp add: normal_cdf_step_def Let_def scaled_diff_of_at cdf_factor_def cdf_rep_deriv_def
      is_constant_struct_def SQRT_TWO_OVER_PI_def sub_at_add_at SQRT_2_def)

lemma fold_guarded_add_at:
  "fold (\<lambda>n d. if is_var x then add_at d n (f n) else d) [0..<N] (new_partials x)
   = accumulate x f N"
proof (cases "is_var x")
  case True
  then show ?thesis by (simp add: accumulate_def)
next
  case False
  then have "new_partials x = []"
    by (simp add: new_partials_def is_constant_struct_def)
  with False show ?thesis by (simp add: fold_id accumulate_const)
qed

lemma normal_cdf_loop_val:
  "val (normal_cdf_loop erf erfc y mu sigma) = dprod (cdf_factor erf erfc y mu sigma) (max_size y mu sigma)"
proof -
  have "val (fold (normal_cdf_step erf erfc y mu sigma) [0..<max_size y mu sigma]
               (operands_and_partials (Fin 1) y mu sigma))
        = fold (\<lambda>n v. dmul v (cdf_factor erf erfc y mu sigma n)) [0..<max_size y mu sigma]
            (val (operands_and_partials (Fin 1) y mu sigma))"
    by (rule fold_proj) (simp add: normal_cdf_step_val)
  then show ?thesis
    by (simp add: normal_cdf_loop_def dprod_def operands_and_partials_def)
qed

lemma normal_cdf_loop_d_x1:
  "d_x1 (normal_cdf_loop erf erfc y mu sigma)
   = accumulate y (cdf_rep_deriv erf erfc y mu sigma) (max_size y mu sigma)"
proof -
  have "d_x1 (fold (normal_cdf_step erf erfc y mu sigma) [0..<max_size y mu sigma]
               (operands_and_partials (Fin 1) y mu sigma))
        = fold (\<lambda>n d. if is_var y then add_at d n (cdf_rep_deriv erf erfc y mu sigma n) else d)
            [0..<max_size y mu sigma] (d_x1 (operands_and_partials (Fin 1) y mu sigma))"
    by (rule fold_proj) (simp add: normal_cdf_step_d_x1)
  then show ?thesis
    by (simp add: normal_cdf_loop_def operands_and_partials_def fold_guarded_add_at)
qed

lemma normal_cdf_loop_d_x2:
  "d_x2 (normal_cdf_loop erf erfc y mu sigma)
   = accumulate mu (\<lambda>n. dneg (cdf_rep_deriv erf erfc y mu sigma n)) (max_size y mu sigma)"
proof -
  have "d_x2 (fold (normal_cdf_step erf erfc y mu sigma) [0..<max_size y mu sigma]
               (operands_and_partials (Fin 1) y mu sigma))
        = fold (\<lambda>n d. if is_var mu then add_at d n (dneg (cdf_rep_deriv erf erfc y mu sigma n))
                       else d)
            [0..<max_size y mu sigma] (d_x2 (operands_and_partials (Fin 1) y mu sigma))"
    by (rule fold_proj) (simp add: normal_cdf_step_d_x2)
  then show ?thesis
    by (simp add: normal_cdf_loop_def operands_and_partials_def fold_guarded_add_at)
qed

lemma normal_cdf_loop_d_x3:
  "d_x3 (normal_cdf_loop erf erfc y mu sigma)
   = accumulate sigma
       (\<lambda>n. dneg (dmul (dmul (cdf_rep_deriv erf erfc y mu sigma n) (scaled_diff_at y mu sigma n))
                     (Fin (sqrt 2))))
       (max_size y mu sigma)"
proof -
  have "d_x3 (fold (normal_cdf_step erf erfc y mu sigma) [0..<max_size y mu sigma]
               (operands_and_partials (Fin 1) y mu sigma))
        = fold (\<lambda>n d. if is_var sigma
                       then add_at d n
                              (dneg (dmul (dmul (cdf_rep_deriv erf erfc y mu sigma n)
                                             (scaled_diff_at y mu sigma n)) (Fin (sqrt 2))))
                       else d)
            [0..<max_size y mu sigma] (d_x3 (operands_and_partials (Fin 1) y mu sigma))"
    by (rule fold_proj) (simp add: normal_cdf_step_d_x3)
  then show ?thesis
    by (simp add: normal_cdf_loop_def operands_and_partials_def fold_guarded_add_at)
qed

lemma normal_cdf_loop_lengths:
  "length (d_x1 (normal_cdf_loop erf erfc y mu sigma)) = (if is_var y then stan_length y else 0)"
  "length (d_x2 (normal_cdf_loop erf erfc y mu sigma)) = (if is_var mu then stan_length mu else 0)"
  "length (d_x3 (normal_cdf_loop erf erfc y mu sigma))
   = (if is_var sigma then stan_length sigma else 0)"
  by (simp_all only: normal_cdf_loop_d_x1 normal_cdf_loop_d_x2 normal_cdf_loop_d_x3
      length_accumulate)

text \<open>
  C3.  \<open>normal_cdf\<close> accumulates its value as a product, from 1, of the per-element cdf
  values.  The main loop adds the per-element quotients into the accumulators; after it,
  every slot of every accumulator of a non-constant argument is multiplied once by the
  final product.
\<close>

theorem normal_cdf_product_rule:
  assumes "valid_args y mu sigma"
  shows "\<exists>r. normal_cdf erf erfc y mu sigma = Inr r \<and>
     val r = dprod (cdf_factor erf erfc y mu sigma) (max_size y mu sigma) \<and>
     d_x1 r = map (\<lambda>d. dmul d (val r)) (d_x1 (normal_cdf_loop erf erfc y mu sigma)) \<and>
     d_x2 r = map (\<lambda>d. dmul d (val r)) (d_x2 (normal_cdf_loop erf erfc y mu sigma)) \<and>
     d_x3 r = map (\<lambda>d. dmul d (val r)) (d_x3 (normal_cdf_loop erf erfc y mu sigma)) \<and>
     d_x1 (normal_cdf_loop erf erfc y mu sigma)
       = gradient y (cdf_rep_deriv erf erfc y mu sigma) (max_size y mu sigma) \<and>
     d_x2 (normal_cdf_loop erf erfc y mu sigma)
       = gradient mu (\<lambda>n. dneg (cdf_rep_deriv erf erfc y mu sigma n)) (max_size y mu sigma) \<and>
     d_x3 (normal_cdf_loop erf erfc y mu sigma)
       = gradient sigma
           (\<lambda>n. dneg (dmul (dmul (cdf_rep_deriv erf erfc y mu sigma n)
                               (scaled_diff_at y mu sigma n)) (Fin (sqrt 2))))
           (max_size y mu sigma) \<and>
     (is_constant_struct y \<longrightarrow> d_x1 r = []) \<and>
     (is_constant_struct mu \<longrightarrow> d_x2 r = []) \<and>
     (is_constant_struct sigma \<longrightarrow> d_x3 r = [])"
proof -
  let ?loop = "normal_cdf_loop erf erfc y mu sigma"
  let ?r = "normal_cdf_post y mu sigma ?loop"
  note len = valid_lengths [OF assms]
  have r: "normal_cdf erf erfc y mu sigma = Inr ?r"
    by (rule normal_cdf_valid [OF assms])
  have v: "val ?r = val ?loop"
    by (simp add: normal_cdf_post_def)
  have p: "val ?r = dprod (cdf_factor erf erfc y mu sigma) (max_size y mu sigma)"
    by (simp add: v normal_cdf_loop_val)
  have 1: "d_x1 ?r = map (\<lambda>d. dmul d (val ?r)) (d_x1 ?loop)"
    unfolding v by (simp add: normal_cdf_post_def rescale_map normal_cdf_loop_lengths)
  have 2: "d_x2 ?r = map (\<lambda>d. dmul d (val ?r)) (d_x2 ?loop)"
    unfolding v by (simp add: normal_cdf_post_def rescale_map normal_cdf_loop_lengths)
  have 3: "d_x3 ?r = map (\<lambda>d. dmul d (val ?r)) (d_x3 ?loop)"
    unfolding v by (simp add: normal_cdf_post_def rescale_map normal_cdf_loop_lengths)
  have g1: "d_x1 ?loop = gradient y (cdf_rep_deriv erf erfc y mu sigma) (max_size y mu sigma)"
    by (simp add: normal_cdf_loop_d_x1 accumulate_gradient [OF len(1)] cdf_rep_deriv_def)
  have g2: "d_x2 ?loop
      = gradient mu (\<lambda>n. dneg (cdf_rep_deriv erf erfc y mu sigma n)) (max_size y mu sigma)"
    by (simp add: normal_cdf_loop_d_x2 accumulate_gradient [OF len(2)] cdf_rep_deriv_def)
  have g3: "d_x3 ?loop
      = gradient sigma
          (\<lambda>n. dneg (dmul (dmul (cdf_rep_deriv erf erfc y mu sigma n)
                              (scaled_diff_at y mu sigma n)) (Fin (sqrt 2))))
          (max_size y mu sigma)"
    by (simp add: normal_cdf_loop_d_x3 accumulate_gradient [OF len(3)])
  have c: "is_constant_struct y \<longrightarrow> d_x1 ?r = []"
    "is_constant_struct mu \<longrightarrow> d_x2 ?r = []"
    "is_constant_struct sigma \<longrightarrow> d_x3 ?r = []"
    unfolding 1 2 3 g1 g2 g3 by (simp_all add: gradient_def is_constant_struct_def)
  from r p 1 2 3 g1 g2 g3 c show ?thesis
    by blast
qed

theorem normal_cdf_product_rule_witness:
  "valid_args \<lparr>is_var = True, elems = [Fin 0, Fin 0]\<rparr> \<lparr>is_var = False, elems = [Fin 0]\<rparr>
     \<lparr>is_var = False, elems = [Fin 1]\<rparr> \<and>
   (\<exists>r. normal_cdf (\<lambda>x. Fin 0) (\<lambda>x. Fin 1) \<lparr>is_var = True, elems = [Fin 0, Fin 0]\<rparr>
           \<lparr>is_var = False, elems = [Fin 0]\<rparr> \<lparr>is_var = False, elems = [Fin 1]\<rparr> = Inr r \<and>
         val r = Fin (1 / 4) \<and>
         d_x1 r = [Fin (sqrt (2 / pi) / 4), Fin (sqrt (2 / pi) / 4)] \<and>
         d_x2 r = [] \<and> d_x3 r = [])"
proof -
  let ?y = "\<lparr>is_var = True, elems = [Fin 0, Fin 0]\<rparr>"
  let ?mu = "\<lparr>is_var = False, elems = [Fin 0]\<rparr>"
  let ?sigma = "\<lparr>is_var = False, elems = [Fin 1]\<rparr>"
  let ?erf = "\<lambda>x::double. Fin 0" and ?erfc = "\<lambda>x::double. Fin 1"
  have v: "valid_args ?y ?mu ?sigma"
    by (intro valid_pair) (simp_all add: is_positive_def dgt_def)
  have N: "max_size ?y ?mu ?sigma = 2"
    by (simp add: max_size_def stan_length_def)
  have u: "[0..<2] = [0, Suc 0]"
    by (simp add: upt_rec)
  have sd: "scaled_diff_at ?y ?mu ?sigma n = Fin 0" if "n = 0 \<or> n = Suc 0" for n
    using that
    by (auto simp: scaled_diff_at_def value_at_def view_def view_index_def dsub_def
        to_double_small to_double_sqrt2)
  have t: "cdf_term ?erf ?erfc (Fin 0) = Fin (1 / 2)"
    unfolding cdf_term_def thresholds by (simp add: dgt_def to_double_small)
  have f: "cdf_factor ?erf ?erfc ?y ?mu ?sigma n = Fin (1 / 2)" if "n = 0 \<or> n = Suc 0" for n
    using that by (simp add: cdf_factor_def sd t)
  have rd: "cdf_rep_deriv ?erf ?erfc ?y ?mu ?sigma n = Fin (sqrt (2 / pi))"
    if "n = 0 \<or> n = Suc 0" for n
    using that by (auto simp: cdf_rep_deriv_def sd f value_at_def view_def view_index_def
        to_double_small to_double_sqrt_two_over_pi)
  have p: "dprod (cdf_factor ?erf ?erfc ?y ?mu ?sigma) 2 = Fin (1 / 4)"
    by (simp add: dprod_def u f to_double_small)
  have g: "gradient ?y (cdf_rep_deriv ?erf ?erfc ?y ?mu ?sigma) 2
           = [Fin (sqrt (2 / pi)), Fin (sqrt (2 / pi))]"
    by (simp add: gradient_def stan_length_def u rd)
  from normal_cdf_product_rule [OF v, of ?erf ?erfc] obtain r where
    r: "normal_cdf ?erf ?erfc ?y ?mu ?sigma = Inr r"
    "val r = dprod (cdf_factor ?erf ?erfc ?y ?mu ?sigma) (max_size ?y ?mu ?sigma)"
    "d_x1 r = map (\<lambda>d. dmul d (val r)) (d_x1 (normal_cdf_loop ?erf ?erfc ?y ?mu ?sigma))"
    "d_x1 (normal_cdf_loop ?erf ?erfc ?y ?mu ?sigma)
       = gradient ?y (cdf_rep_deriv ?erf ?erfc ?y ?mu ?sigma) (max_size ?y ?mu ?sigma)"
    "is_constant_struct ?mu \<longrightarrow> d_x2 r = []"
    "is_constant_struct ?sigma \<longrightarrow> d_x3 r = []"
    by blast
  then have "val r = Fin (1 / 4)" "d_x1 r = [Fin (sqrt (2 / pi) / 4), Fin (sqrt (2 / pi) / 4)]"
    "d_x2 r = []" "d_x3 r = []"
    by (simp_all add: N p g is_constant_struct_def to_double_small
        to_double_sqrt_two_over_pi)
  with r(1) v show ?thesis by blast
qed


section \<open>The tail policy\<close>

lemma normal_cdf_log_valid:
  assumes "valid_args y mu sigma"
  shows "normal_cdf_log erf erfc y mu sigma
         = Inr (fold (normal_cdf_log_step erf erfc y mu sigma) [0..<max_size y mu sigma]
                  (operands_and_partials (Fin 0) y mu sigma))"
  using assms positive_not_nan [of "elems sigma"]
  unfolding normal_cdf_log_def valid_args_def check_not_nan_def check_finite_def
    check_positive_def check_consistent_sizes_def
  by (simp add: Let_def)

lemma normal_ccdf_log_valid:
  assumes "valid_args y mu sigma"
  shows "normal_ccdf_log erf erfc y mu sigma
         = Inr (fold (normal_ccdf_log_step erf erfc y mu sigma) [0..<max_size y mu sigma]
                  (operands_and_partials (Fin 0) y mu sigma))"
  using assms positive_not_nan [of "elems sigma"]
  unfolding normal_ccdf_log_def valid_args_def check_not_nan_def check_finite_def
    check_positive_def check_consistent_sizes_def
  by (simp add: Let_def)

lemma normal_cdf_log_val:
  assumes "valid_args y mu sigma"
  shows "\<exists>r. normal_cdf_log erf erfc y mu sigma = Inr r \<and>
     val r = dsum (\<lambda>n. dadd (Fin (ln (1 / 2)))
                         (dlog (one_p_erf erf erfc (scaled_diff_at y mu sigma n))))
               (max_size y mu sigma)"
proof -
  have "val (fold (normal_cdf_log_step erf erfc y mu sigma) [0..<max_size y mu sigma]
               (operands_and_partials (Fin 0) y mu sigma))
        = fold (\<lambda>n v. dadd v (dadd (Fin (ln (1 / 2)))
                                 (dlog (one_p_erf erf erfc (scaled_diff_at y mu sigma n)))))
            [0..<max_size y mu sigma] (val (operands_and_partials (Fin 0) y mu sigma))"
    by (rule fold_proj)
       (simp add: normal_cdf_log_step_def Let_def scaled_diff_of_at log_half_def)
  then show ?thesis
    by (simp add: normal_cdf_log_valid [OF assms] dsum_def operands_and_partials_def)
qed

lemma normal_ccdf_log_val:
  assumes "valid_args y mu sigma"
  shows "\<exists>r. normal_ccdf_log erf erfc y mu sigma = Inr r \<and>
     val r = dsum (\<lambda>n. dadd (Fin (ln (1 / 2)))
                         (dlog (one_m_erf erf erfc (scaled_diff_at y mu sigma n))))
               (max_size y mu sigma)"
proof -
  have "val (fold (normal_ccdf_log_step erf erfc y mu sigma) [0..<max_size y mu sigma]
               (operands_and_partials (Fin 0) y mu sigma))
        = fold (\<lambda>n v. dadd v (dadd (Fin (ln (1 / 2)))
                                 (dlog (one_m_erf erf erfc (scaled_diff_at y mu sigma n)))))
            [0..<max_size y mu sigma] (val (operands_and_partials (Fin 0) y mu sigma))"
    by (rule fold_proj)
       (simp add: normal_ccdf_log_step_def Let_def scaled_diff_of_at log_half_def)
  then show ?thesis
    by (simp add: normal_ccdf_log_valid [OF assms] dsum_def operands_and_partials_def)
qed

lemma normal_cdf_val:
  assumes "valid_args y mu sigma"
  shows "\<exists>r. normal_cdf erf erfc y mu sigma = Inr r \<and>
     val r = dprod (\<lambda>n. cdf_term erf erfc (scaled_diff_at y mu sigma n)) (max_size y mu sigma)"
proof -
  have "cdf_factor erf erfc y mu sigma = (\<lambda>n. cdf_term erf erfc (scaled_diff_at y mu sigma n))"
    by (rule ext) (simp add: cdf_factor_def)
  then show ?thesis
    by (simp add: normal_cdf_valid [OF assms] normal_cdf_post_def normal_cdf_loop_val)
qed

lemma threshold_order:
  "- 37.5 / sqrt 2 < - 5 / sqrt (2::real)" "- 5 / sqrt 2 < 8.25 / sqrt (2::real)"
  by (simp_all add: field_simps)

lemma region_deep_left:
  assumes "dlt x (Fin (- 37.5 / sqrt 2))"
  shows "cdf_term erf erfc x = Fin 0" "one_p_erf erf erfc x = Fin 0"
    "one_m_erf erf erfc x = Fin 2"
  using assms unfolding cdf_term_def one_p_erf_def one_m_erf_def thresholds by simp_all

lemma region_left:
  assumes "dle (Fin (- 37.5 / sqrt 2)) x" "dlt x (Fin (- 5 / sqrt 2))"
  shows "cdf_term erf erfc x = dmul (Fin 0.5) (erfc (dneg x))"
    "one_p_erf erf erfc x = erfc (dneg x)"
    "one_m_erf erf erfc x = dsub (Fin 2) (erfc (dneg x))"
proof -
  from assms(1) have "\<not> dlt x (Fin (- 37.5 / sqrt 2))"
    by (cases x) (auto simp: dle_def)
  with assms(2) show "cdf_term erf erfc x = dmul (Fin 0.5) (erfc (dneg x))"
    "one_p_erf erf erfc x = erfc (dneg x)"
    "one_m_erf erf erfc x = dsub (Fin 2) (erfc (dneg x))"
    unfolding cdf_term_def one_p_erf_def one_m_erf_def thresholds by simp_all
qed

lemma region_deep_right:
  assumes "dgt x (Fin (8.25 / sqrt 2))"
  shows "cdf_term erf erfc x = Fin 1" "one_p_erf erf erfc x = Fin 2"
    "one_m_erf erf erfc x = Fin 0"
proof -
  from assms threshold_order have "\<not> dlt x (Fin (- 37.5 / sqrt 2))" "\<not> dlt x (Fin (- 5 / sqrt 2))"
    by (cases x; simp add: dgt_def)+
  with assms show "cdf_term erf erfc x = Fin 1" "one_p_erf erf erfc x = Fin 2"
    "one_m_erf erf erfc x = Fin 0"
    unfolding cdf_term_def one_p_erf_def one_m_erf_def thresholds by simp_all
qed

lemma region_central:
  assumes "\<not> dlt x (Fin (- 37.5 / sqrt 2))"
    "\<not> (dle (Fin (- 37.5 / sqrt 2)) x \<and> dlt x (Fin (- 5 / sqrt 2)))"
    "\<not> dgt x (Fin (8.25 / sqrt 2))"
  shows "cdf_term erf erfc x = dmul (Fin 0.5) (dadd (Fin 1) (erf x))"
    "one_p_erf erf erfc x = dadd (Fin 1) (erf x)"
    "one_m_erf erf erfc x = dsub (Fin 1) (erf x)"
proof -
  from assms(1,2) have "\<not> dlt x (Fin (- 5 / sqrt 2))"
    by (cases x) (auto simp: dle_def)
  with assms(1,3) show "cdf_term erf erfc x = dmul (Fin 0.5) (dadd (Fin 1) (erf x))"
    "one_p_erf erf erfc x = dadd (Fin 1) (erf x)"
    "one_m_erf erf erfc x = dsub (Fin 1) (erf x)"
    unfolding cdf_term_def one_p_erf_def one_m_erf_def thresholds by simp_all
qed

lemma sqrt2_bounds: "37.5 / sqrt 2 < (100::real)" "8.25 / sqrt 2 < (100::real)"
proof -
  have "1 \<le> sqrt (2::real)" by simp
  then have "37.5 / sqrt 2 \<le> 37.5 / (1::real)" "8.25 / sqrt 2 \<le> 8.25 / (1::real)"
    by (intro divide_left_mono; simp)+
  then show "37.5 / sqrt 2 < (100::real)" "8.25 / sqrt 2 < (100::real)"
    by simp_all
qed

text \<open>
  C2.  \<open>normal_cdf\<close>, \<open>normal_cdf_log\<close> and \<open>normal_ccdf_log\<close> evaluate, per element, a
  quantity of \<open>scaled_diff = (y - mu) / (sigma * \<surd>2)\<close> by one piecewise policy.  Below
  \<open>-37.5/\<surd>2\<close> the quantity saturates (0 for the factor of cdf, 0 for \<open>1 + erf\<close>, 2 for
  \<open>1 - erf\<close>); from \<open>-37.5/\<surd>2\<close> up to \<open>-5/\<surd>2\<close> it is computed with
  \<open>erfc (- scaled_diff)\<close>; above \<open>8.25/\<surd>2\<close> it saturates to the other extreme (1, 2, 0);
  otherwise it is computed with \<open>erf scaled_diff\<close>.
\<close>

theorem tail_policy:
  "(valid_args y mu sigma \<longrightarrow>
      (\<exists>r. normal_cdf erf erfc y mu sigma = Inr r \<and>
            val r = dprod (\<lambda>n. cdf_term erf erfc (scaled_diff_at y mu sigma n))
                      (max_size y mu sigma)) \<and>
      (\<exists>r. normal_cdf_log erf erfc y mu sigma = Inr r \<and>
            val r = dsum (\<lambda>n. dadd (Fin (ln (1 / 2)))
                                (dlog (one_p_erf erf erfc (scaled_diff_at y mu sigma n))))
                      (max_size y mu sigma)) \<and>
      (\<exists>r. normal_ccdf_log erf erfc y mu sigma = Inr r \<and>
            val r = dsum (\<lambda>n. dadd (Fin (ln (1 / 2)))
                                (dlog (one_m_erf erf erfc (scaled_diff_at y mu sigma n))))
                      (max_size y mu sigma))) \<and>
   (dlt x (Fin (- 37.5 / sqrt 2)) \<longrightarrow>
      cdf_term erf erfc x = Fin 0 \<and> one_p_erf erf erfc x = Fin 0 \<and>
      one_m_erf erf erfc x = Fin 2) \<and>
   (dle (Fin (- 37.5 / sqrt 2)) x \<and> dlt x (Fin (- 5 / sqrt 2)) \<longrightarrow>
      cdf_term erf erfc x = dmul (Fin 0.5) (erfc (dneg x)) \<and>
      one_p_erf erf erfc x = erfc (dneg x) \<and>
      one_m_erf erf erfc x = dsub (Fin 2) (erfc (dneg x))) \<and>
   (dgt x (Fin (8.25 / sqrt 2)) \<longrightarrow>
      cdf_term erf erfc x = Fin 1 \<and> one_p_erf erf erfc x = Fin 2 \<and>
      one_m_erf erf erfc x = Fin 0) \<and>
   (\<not> dlt x (Fin (- 37.5 / sqrt 2)) \<and>
    \<not> (dle (Fin (- 37.5 / sqrt 2)) x \<and> dlt x (Fin (- 5 / sqrt 2))) \<and>
    \<not> dgt x (Fin (8.25 / sqrt 2)) \<longrightarrow>
      cdf_term erf erfc x = dmul (Fin 0.5) (dadd (Fin 1) (erf x)) \<and>
      one_p_erf erf erfc x = dadd (Fin 1) (erf x) \<and>
      one_m_erf erf erfc x = dsub (Fin 1) (erf x))"
proof (intro conjI impI)
  assume v: "valid_args y mu sigma"
  show "\<exists>r. normal_cdf erf erfc y mu sigma = Inr r \<and>
            val r = dprod (\<lambda>n. cdf_term erf erfc (scaled_diff_at y mu sigma n))
                      (max_size y mu sigma)"
    by (rule normal_cdf_val [OF v])
  show "\<exists>r. normal_cdf_log erf erfc y mu sigma = Inr r \<and>
            val r = dsum (\<lambda>n. dadd (Fin (ln (1 / 2)))
                                (dlog (one_p_erf erf erfc (scaled_diff_at y mu sigma n))))
                      (max_size y mu sigma)"
    by (rule normal_cdf_log_val [OF v])
  show "\<exists>r. normal_ccdf_log erf erfc y mu sigma = Inr r \<and>
            val r = dsum (\<lambda>n. dadd (Fin (ln (1 / 2)))
                                (dlog (one_m_erf erf erfc (scaled_diff_at y mu sigma n))))
                      (max_size y mu sigma)"
    by (rule normal_ccdf_log_val [OF v])
next
  assume a: "dlt x (Fin (- 37.5 / sqrt 2))"
  show "cdf_term erf erfc x = Fin 0" "one_p_erf erf erfc x = Fin 0"
    "one_m_erf erf erfc x = Fin 2"
    by (rule region_deep_left [OF a])+
next
  assume a: "dle (Fin (- 37.5 / sqrt 2)) x \<and> dlt x (Fin (- 5 / sqrt 2))"
  then have b: "dle (Fin (- 37.5 / sqrt 2)) x" and c: "dlt x (Fin (- 5 / sqrt 2))"
    by blast+
  show "cdf_term erf erfc x = dmul (Fin 0.5) (erfc (dneg x))"
    "one_p_erf erf erfc x = erfc (dneg x)"
    "one_m_erf erf erfc x = dsub (Fin 2) (erfc (dneg x))"
    by (rule region_left [OF b c])+
next
  assume a: "dgt x (Fin (8.25 / sqrt 2))"
  show "cdf_term erf erfc x = Fin 1" "one_p_erf erf erfc x = Fin 2"
    "one_m_erf erf erfc x = Fin 0"
    by (rule region_deep_right [OF a])+
next
  assume a: "\<not> dlt x (Fin (- 37.5 / sqrt 2)) \<and>
    \<not> (dle (Fin (- 37.5 / sqrt 2)) x \<and> dlt x (Fin (- 5 / sqrt 2))) \<and>
    \<not> dgt x (Fin (8.25 / sqrt 2))"
  then have b: "\<not> dlt x (Fin (- 37.5 / sqrt 2))"
    and c: "\<not> (dle (Fin (- 37.5 / sqrt 2)) x \<and> dlt x (Fin (- 5 / sqrt 2)))"
    and d: "\<not> dgt x (Fin (8.25 / sqrt 2))"
    by blast+
  show "cdf_term erf erfc x = dmul (Fin 0.5) (dadd (Fin 1) (erf x))"
    "one_p_erf erf erfc x = dadd (Fin 1) (erf x)"
    "one_m_erf erf erfc x = dsub (Fin 1) (erf x)"
    by (rule region_central [OF b c d])+
qed

theorem tail_policy_witness:
  "valid_args \<lparr>is_var = False, elems = [Fin 0]\<rparr> \<lparr>is_var = False, elems = [Fin 0]\<rparr>
     \<lparr>is_var = False, elems = [Fin 1]\<rparr> \<and>
   (\<exists>r. normal_cdf (\<lambda>x. Fin 0) (\<lambda>x. Fin 1) \<lparr>is_var = False, elems = [Fin 0]\<rparr>
           \<lparr>is_var = False, elems = [Fin 0]\<rparr> \<lparr>is_var = False, elems = [Fin 1]\<rparr> = Inr r \<and>
         val r = Fin (1 / 2)) \<and>
   dlt (Fin (- 100)) (Fin (- 37.5 / sqrt 2)) \<and>
   cdf_term (\<lambda>x. Fin 0) (\<lambda>x. Fin 1) (Fin (- 100)) = Fin 0 \<and>
   one_p_erf (\<lambda>x. Fin 0) (\<lambda>x. Fin 1) (Fin (- 100)) = Fin 0 \<and>
   one_m_erf (\<lambda>x. Fin 0) (\<lambda>x. Fin 1) (Fin (- 100)) = Fin 2 \<and>
   dle (Fin (- 37.5 / sqrt 2)) (Fin (- 37.5 / sqrt 2)) \<and>
   dlt (Fin (- 37.5 / sqrt 2)) (Fin (- 5 / sqrt 2)) \<and>
   cdf_term (\<lambda>x. Fin 0) (\<lambda>x. Fin 1) (Fin (- 37.5 / sqrt 2)) = Fin (1 / 2) \<and>
   one_p_erf (\<lambda>x. Fin 0) (\<lambda>x. Fin 1) (Fin (- 37.5 / sqrt 2)) = Fin 1 \<and>
   one_m_erf (\<lambda>x. Fin 0) (\<lambda>x. Fin 1) (Fin (- 37.5 / sqrt 2)) = Fin 1 \<and>
   dgt (Fin 100) (Fin (8.25 / sqrt 2)) \<and>
   cdf_term (\<lambda>x. Fin 0) (\<lambda>x. Fin 1) (Fin 100) = Fin 1 \<and>
   one_p_erf (\<lambda>x. Fin 0) (\<lambda>x. Fin 1) (Fin 100) = Fin 2 \<and>
   one_m_erf (\<lambda>x. Fin 0) (\<lambda>x. Fin 1) (Fin 100) = Fin 0 \<and>
   cdf_term (\<lambda>x. Fin 0) (\<lambda>x. Fin 1) (Fin 0) = Fin (1 / 2) \<and>
   one_p_erf (\<lambda>x. Fin 0) (\<lambda>x. Fin 1) (Fin 0) = Fin 1 \<and>
   one_m_erf (\<lambda>x. Fin 0) (\<lambda>x. Fin 1) (Fin 0) = Fin 1"
proof -
  let ?y = "\<lparr>is_var = False, elems = [Fin 0]\<rparr>" and ?sigma = "\<lparr>is_var = False, elems = [Fin 1]\<rparr>"
  let ?erf = "\<lambda>x::double. Fin 0" and ?erfc = "\<lambda>x::double. Fin 1"
  have v: "valid_args ?y ?y ?sigma"
    by (intro valid_scalars) (simp_all add: is_positive_def dgt_def)
  have N: "max_size ?y ?y ?sigma = 1"
    by (simp add: max_size_def stan_length_def)
  have sd: "scaled_diff_at ?y ?y ?sigma 0 = Fin 0"
    by (simp add: scaled_diff_at_def value_at_def view_def view_index_def dsub_def
        to_double_small to_double_sqrt2)
  have l: "dlt (Fin (- 100)) (Fin (- 37.5 / sqrt 2))"
    using sqrt2_bounds(1) by simp
  have m: "dle (Fin (- 37.5 / sqrt 2)) (Fin (- 37.5 / sqrt 2))"
    "dlt (Fin (- 37.5 / sqrt 2)) (Fin (- 5 / sqrt 2))"
    using threshold_order(1) by (simp_all add: dle_def)
  have h: "dgt (Fin 100) (Fin (8.25 / sqrt 2))"
    using sqrt2_bounds(2) by (simp add: dgt_def)
  have c: "\<not> dlt (Fin 0) (Fin (- 37.5 / sqrt 2)) \<and>
    \<not> (dle (Fin (- 37.5 / sqrt 2)) (Fin 0) \<and> dlt (Fin 0) (Fin (- 5 / sqrt 2))) \<and>
    \<not> dgt (Fin 0) (Fin (8.25 / sqrt 2))"
    by (simp add: dgt_def)
  note t = tail_policy [of ?y ?y ?sigma ?erf ?erfc]
  from t [of "Fin 0"] c
  have 5: "cdf_term ?erf ?erfc (Fin 0) = Fin (1 / 2)" "one_p_erf ?erf ?erfc (Fin 0) = Fin 1"
      "one_m_erf ?erf ?erfc (Fin 0) = Fin 1"
    by (simp_all add: dsub_def to_double_small)
  from t [of "Fin 0"] v
  have "\<exists>r. normal_cdf ?erf ?erfc ?y ?y ?sigma = Inr r \<and>
    val r = dprod (\<lambda>n. cdf_term ?erf ?erfc (scaled_diff_at ?y ?y ?sigma n))
              (max_size ?y ?y ?sigma)"
    by blast
  then have 1: "\<exists>r. normal_cdf ?erf ?erfc ?y ?y ?sigma = Inr r \<and> val r = Fin (1 / 2)"
    by (simp add: N dprod_def sd 5 to_double_small)
  from t [of "Fin (- 100)"] l
  have 2: "cdf_term ?erf ?erfc (Fin (- 100)) = Fin 0" "one_p_erf ?erf ?erfc (Fin (- 100)) = Fin 0"
    "one_m_erf ?erf ?erfc (Fin (- 100)) = Fin 2"
    by blast+
  from t [of "Fin (- 37.5 / sqrt 2)"] m
  have 3: "cdf_term ?erf ?erfc (Fin (- 37.5 / sqrt 2)) = Fin (1 / 2)"
    "one_p_erf ?erf ?erfc (Fin (- 37.5 / sqrt 2)) = Fin 1"
    "one_m_erf ?erf ?erfc (Fin (- 37.5 / sqrt 2)) = Fin 1"
    by (simp_all add: dsub_def to_double_small)
  from t [of "Fin 100"] h
  have 4: "cdf_term ?erf ?erfc (Fin 100) = Fin 1" "one_p_erf ?erf ?erfc (Fin 100) = Fin 2"
    "one_m_erf ?erf ?erfc (Fin 100) = Fin 0"
    by blast+
  from v 1 l 2 m 3 h 4 5 show ?thesis
    by blast
qed


section \<open>The sampler\<close>

lemma check_scalar_simps:
  "check_finite f (scalar v) l = (if is_finite v then Inr () else Inl (DomainError f l))"
  "check_not_nan f (scalar v) l = (if is_nan v then Inl (DomainError f l) else Inr ())"
  "check_positive f (scalar v) l = (if is_positive v then Inr () else Inl (DomainError f l))"
  by (simp_all add: check_finite_def check_not_nan_def check_positive_def scalar_def)

lemma is_finite_not_nan: "is_finite v \<Longrightarrow> \<not> is_nan v"
  by (cases v) simp_all

text \<open>
  C9.  \<open>normal_rng\<close> checks that \<open>mu\<close> is finite and not NaN and that \<open>sigma\<close> is
  strictly positive and not NaN; when a check fails it returns a \<open>DomainError\<close> and the
  random source as it was given, nothing drawn.  On valid parameters it draws once and
  returns \<open>mu + sigma * draw\<close>.
\<close>

theorem normal_rng_checks_then_draws:
  "(\<not> is_finite mu \<or> is_nan mu \<or> \<not> is_positive sigma \<or> is_nan sigma \<longrightarrow>
      (\<exists>f l. normal_rng draw mu sigma rng = (Inl (DomainError f l), rng))) \<and>
   (is_finite mu \<and> \<not> is_nan mu \<and> is_positive sigma \<and> \<not> is_nan sigma \<longrightarrow>
      normal_rng draw mu sigma rng
      = (Inr (dadd mu (dmul sigma (fst (draw rng)))), snd (draw rng)))"
proof (intro conjI impI)
  assume "\<not> is_finite mu \<or> is_nan mu \<or> \<not> is_positive sigma \<or> is_nan sigma"
  then have "\<not> is_finite mu \<or> \<not> is_positive sigma"
    using is_finite_not_nan [of mu] is_positive_not_nan [of sigma] by blast
  then show "\<exists>f l. normal_rng draw mu sigma rng = (Inl (DomainError f l), rng)"
    using is_finite_not_nan [of mu]
    by (auto simp: normal_rng_def check_scalar_simps)
next
  assume "is_finite mu \<and> \<not> is_nan mu \<and> is_positive sigma \<and> \<not> is_nan sigma"
  then show "normal_rng draw mu sigma rng
      = (Inr (dadd mu (dmul sigma (fst (draw rng)))), snd (draw rng))"
    by (simp add: normal_rng_def check_scalar_simps split_beta)
qed

theorem normal_rng_checks_then_draws_witness:
  "\<not> is_positive (Fin (- 1)) \<and>
   normal_rng (\<lambda>s::nat. (Fin 3, Suc s)) (Fin 0) (Fin (- 1)) 0
     = (Inl (DomainError normal_rng_name ''Scale parameter''), 0) \<and>
   \<not> is_finite NaN \<and>
   normal_rng (\<lambda>s::nat. (Fin 3, Suc s)) NaN (Fin 2) 0
     = (Inl (DomainError normal_rng_name ''Location parameter''), 0) \<and>
   is_finite (Fin 1) \<and> is_positive (Fin 2) \<and>
   normal_rng (\<lambda>s::nat. (Fin 3, Suc s)) (Fin 1) (Fin 2) 0 = (Inr (Fin 7), Suc 0)"
proof -
  let ?draw = "\<lambda>s::nat. (Fin 3, Suc s)"
  have a: "\<not> is_positive (Fin (- 1))" "\<not> is_finite NaN" "is_finite (Fin 1)" "is_positive (Fin 2)"
    "\<not> is_nan (Fin 1)" "\<not> is_nan (Fin 2)"
    by (simp_all add: is_positive_def dgt_def)
  from normal_rng_checks_then_draws [of "Fin 0" "Fin (- 1)" ?draw 0] a
  have 1: "\<exists>f l. normal_rng ?draw (Fin 0) (Fin (- 1)) 0 = (Inl (DomainError f l), 0)"
    by blast
  from normal_rng_checks_then_draws [of NaN "Fin 2" ?draw 0] a
  have 2: "\<exists>f l. normal_rng ?draw NaN (Fin 2) 0 = (Inl (DomainError f l), 0)"
    by blast
  from normal_rng_checks_then_draws [of "Fin 1" "Fin 2" ?draw 0] a
  have 3: "normal_rng ?draw (Fin 1) (Fin 2) 0 = (Inr (Fin 7), Suc 0)"
    by (simp add: to_double_small)
  have e1: "normal_rng ?draw (Fin 0) (Fin (- 1)) 0
      = (Inl (DomainError normal_rng_name ''Scale parameter''), 0)"
    using 1 by (simp add: normal_rng_def check_scalar_simps is_positive_def dgt_def)
  have e2: "normal_rng ?draw NaN (Fin 2) 0
      = (Inl (DomainError normal_rng_name ''Location parameter''), 0)"
    using 2 by (simp add: normal_rng_def check_scalar_simps)
  from a e1 e2 3 show ?thesis by simp
qed

section \<open>Errors of normal_log\<close>

lemma normal_log_domain_error:
  assumes "stan_length y \<noteq> 0" "stan_length mu \<noteq> 0" "stan_length sigma \<noteq> 0"
    and "\<not> list_all is_positive (elems sigma)"
  shows "\<exists>f l. normal_log propto y mu sigma = Inl (DomainError f l)"
  using assms unfolding normal_log_def check_not_nan_def check_finite_def check_positive_def
  by simp

lemma normal_log_shape_mismatch:
  assumes "stan_length y \<noteq> 0" "stan_length mu \<noteq> 0" "stan_length sigma \<noteq> 0"
    and "\<not> list_ex is_nan (elems y)" "list_all is_finite (elems mu)"
      "list_all is_positive (elems sigma)"
    and "(1 < stan_length y \<and> 1 < stan_length mu \<and> stan_length y \<noteq> stan_length mu) \<or>
         (1 < stan_length y \<and> 1 < stan_length sigma \<and> stan_length y \<noteq> stan_length sigma) \<or>
         (1 < stan_length mu \<and> 1 < stan_length sigma \<and> stan_length mu \<noteq> stan_length sigma)"
  shows "normal_log propto y mu sigma = Inl (ShapeMismatch normal_log_name)"
proof -
  have "\<not> (consistent_size (max_size y mu sigma) y \<and> consistent_size (max_size y mu sigma) mu \<and>
           consistent_size (max_size y mu sigma) sigma)"
    using assms(7) unfolding consistent_size_def max_size_def by auto
  then show ?thesis
    using assms(1-6)
    unfolding normal_log_def check_not_nan_def check_finite_def check_positive_def
      check_consistent_sizes_def
    by (simp add: Let_def)
qed

text \<open>
  C7, as stated: on every non-empty input \<open>normal_log\<close> raises a \<open>ShapeMismatch\<close> when two
  arguments have different lengths greater than 1.  This fails when a numeric check fails
  as well, since the numeric checks come first: with a NaN in a \<open>y\<close> of length 3 and a \<open>mu\<close>
  of length 2 the error is a \<open>DomainError\<close>.
\<close>

theorem normal_log_shape_mismatch_counterexample:
  "stan_length \<lparr>is_var = False, elems = [NaN, Fin 0, Fin 0]\<rparr> = 3 \<and>
   stan_length \<lparr>is_var = False, elems = [Fin 0, Fin 0]\<rparr> = 2 \<and>
   stan_length \<lparr>is_var = False, elems = [Fin 1]\<rparr> = 1 \<and>
   normal_log False \<lparr>is_var = False, elems = [NaN, Fin 0, Fin 0]\<rparr>
     \<lparr>is_var = False, elems = [Fin 0, Fin 0]\<rparr> \<lparr>is_var = False, elems = [Fin 1]\<rparr>
     = Inl (DomainError normal_log_name ''Random variable'') \<and>
   normal_log False \<lparr>is_var = False, elems = [NaN, Fin 0, Fin 0]\<rparr>
     \<lparr>is_var = False, elems = [Fin 0, Fin 0]\<rparr> \<lparr>is_var = False, elems = [Fin 1]\<rparr>
     \<noteq> Inl (ShapeMismatch normal_log_name)"
  by (simp add: normal_log_def stan_length_def check_not_nan_def)

text \<open>
  C7, amended.  On every non-empty input \<open>normal_log\<close> raises a \<open>DomainError\<close> when
  \<open>sigma\<close> is not strictly positive.  It raises a \<open>ShapeMismatch\<close> when two arguments have
  different lengths greater than 1 and the numeric checks pass (\<open>y\<close> holds no NaN, \<open>mu\<close> is
  finite, \<open>sigma\<close> is strictly positive).  Either way the result is the error alone.
\<close>

theorem normal_log_errors:
  "stan_length y \<noteq> 0 \<and> stan_length mu \<noteq> 0 \<and> stan_length sigma \<noteq> 0 \<longrightarrow>
     (\<not> list_all is_positive (elems sigma) \<longrightarrow>
        (\<exists>f l. normal_log propto y mu sigma = Inl (DomainError f l))) \<and>
     (\<not> list_ex is_nan (elems y) \<and> list_all is_finite (elems mu) \<and>
      list_all is_positive (elems sigma) \<and>
      ((1 < stan_length y \<and> 1 < stan_length mu \<and> stan_length y \<noteq> stan_length mu) \<or>
       (1 < stan_length y \<and> 1 < stan_length sigma \<and> stan_length y \<noteq> stan_length sigma) \<or>
       (1 < stan_length mu \<and> 1 < stan_length sigma \<and> stan_length mu \<noteq> stan_length sigma)) \<longrightarrow>
        normal_log propto y mu sigma = Inl (ShapeMismatch normal_log_name))"
proof (intro impI conjI)
  assume n: "stan_length y \<noteq> 0 \<and> stan_length mu \<noteq> 0 \<and> stan_length sigma \<noteq> 0"
  {
    assume "\<not> list_all is_positive (elems sigma)"
    with n show "\<exists>f l. normal_log propto y mu sigma = Inl (DomainError f l)"
      by (intro normal_log_domain_error) simp_all
  next
    assume "\<not> list_ex is_nan (elems y) \<and> list_all is_finite (elems mu) \<and>
      list_all is_positive (elems sigma) \<and>
      ((1 < stan_length y \<and> 1 < stan_length mu \<and> stan_length y \<noteq> stan_length mu) \<or>
       (1 < stan_length y \<and> 1 < stan_length sigma \<and> stan_length y \<noteq> stan_length sigma) \<or>
       (1 < stan_length mu \<and> 1 < stan_length sigma \<and> stan_length mu \<noteq> stan_length sigma))"
    with n show "normal_log propto y mu sigma = Inl (ShapeMismatch normal_log_name)"
      by (intro normal_log_shape_mismatch) simp_all
  }
qed

theorem normal_log_errors_witness:
  "normal_log False \<lparr>is_var = False, elems = [Fin 0]\<rparr> \<lparr>is_var = False, elems = [Fin 0]\<rparr>
     \<lparr>is_var = False, elems = [Fin (- 1)]\<rparr>
     = Inl (DomainError normal_log_name ''Scale parameter'') \<and>
   normal_log False \<lparr>is_var = False, elems = [Fin 0, Fin 0, Fin 0]\<rparr>
     \<lparr>is_var = False, elems = [Fin 0, Fin 0]\<rparr> \<lparr>is_var = False, elems = [Fin 1]\<rparr>
     = Inl (ShapeMismatch normal_log_name)"
proof -
  let ?s = "\<lparr>is_var = False, elems = [Fin 0]\<rparr>"
  let ?neg = "\<lparr>is_var = False, elems = [Fin (- 1)]\<rparr>"
  let ?y3 = "\<lparr>is_var = False, elems = [Fin 0, Fin 0, Fin 0]\<rparr>"
  let ?mu2 = "\<lparr>is_var = False, elems = [Fin 0, Fin 0]\<rparr>"
  let ?one = "\<lparr>is_var = False, elems = [Fin 1]\<rparr>"
  from normal_log_errors [of ?s ?s ?neg False]
  have "\<exists>f l. normal_log False ?s ?s ?neg = Inl (DomainError f l)"
    by (simp add: stan_length_def is_positive_def dgt_def)
  then have 1: "normal_log False ?s ?s ?neg = Inl (DomainError normal_log_name ''Scale parameter'')"
    by (simp add: normal_log_def stan_length_def check_not_nan_def check_finite_def
        check_positive_def is_positive_def dgt_def)
  from normal_log_errors [of ?y3 ?mu2 ?one False]
  have 2: "normal_log False ?y3 ?mu2 ?one = Inl (ShapeMismatch normal_log_name)"
    by (simp add: stan_length_def is_positive_def dgt_def)
  from 1 2 show ?thesis by simp
qed


end
